theory Spec2Isabelle
  imports Complex_Main "HOL-Library.Sublist" "HOL-Library.Char_ord" "HOL-Library.List_Lexorder"
begin

section \<open>Fortmix ERP: the persistent store\<close>

text \<open>
  The repository holds three servers over the same six tables: the embedded-store server
  (\<^verbatim>\<open>src/unnamed/part_000\<close>, better-sqlite3), the hosted-store server
  (\<^verbatim>\<open>src/unnamed/part_002\<close>, supabase-js) and the dual server
  (\<^verbatim>\<open>src/unnamed/part_001\<close>), which takes the hosted path when
  \<^verbatim>\<open>SUPABASE_URL\<close> is set and the embedded path otherwise.

  Rows follow the \<^verbatim>\<open>CREATE TABLE\<close> statements. \<^verbatim>\<open>REAL\<close> columns and
  JavaScript numbers that hold money are modelled as exact reals, \<^verbatim>\<open>INTEGER\<close>
  columns as integers, keys as naturals, \<^verbatim>\<open>DATETIME\<close> columns as the text the
  store keeps (\<^verbatim>\<open>YYYY-MM-DD HH:MM:SS\<close>).
\<close>

type_synonym timestamp = string

text \<open>
  A template literal such as \<^verbatim>\<open>`Venda #${saleId}`\<close> is kept as its pieces, so that no
  number formatting of JavaScript has to be modelled.
\<close>

datatype piece = Lit string | Num nat | Amount real

type_synonym template = "piece list"

record user =
  u_id :: nat
  u_username :: string
  u_password :: string
  u_name :: string
  u_role :: string
  u_created_at :: timestamp

record product =
  p_id :: nat
  p_code :: string
  p_name :: string
  p_category :: string
  p_price :: real
  p_cost_price :: "real option"
  p_stock_quantity :: int
  p_min_stock :: int
  p_unit :: string
  p_created_at :: timestamp

record sale =
  s_id :: nat
  s_user_id :: nat
  s_total :: real
  s_payment_method :: string
  s_created_at :: timestamp

record sale_item =
  si_id :: nat
  si_sale_id :: nat
  si_product_id :: nat
  si_quantity :: int
  si_price :: real
  si_cost_price :: "real option"

record stock_movement =
  sm_id :: nat
  sm_product_id :: nat
  sm_user_id :: nat
  sm_type :: string
  sm_quantity :: int
  sm_reason :: template
  sm_created_at :: timestamp

record audit_log =
  al_id :: nat
  al_user_id :: nat
  al_action :: string
  al_entity :: string
  al_details :: template
  al_created_at :: timestamp

record db =
  users :: "user list"
  products :: "product list"
  sales :: "sale list"
  sale_items :: "sale_item list"
  stock_movements :: "stock_movement list"
  audit_logs :: "audit_log list"

subsection \<open>Statements that write\<close>

text \<open>
  One constructor per writing statement the three servers issue. No statement updates or
  deletes a row of \<^verbatim>\<open>sales\<close>, \<^verbatim>\<open>sale_items\<close>, \<^verbatim>\<open>stock_movements\<close> or
  \<^verbatim>\<open>audit_logs\<close>, and none deletes at all.

  \<^item> \<open>Insert_user username password name role\<close>
  \<^item> \<open>Insert_product code name category price cost_price stock min_stock unit\<close>; the stock
    is \<open>None\<close> where the column is left to its \<^verbatim>\<open>DEFAULT 0\<close> (parts 000 and 001)
  \<^item> \<open>Update_product id code name category price cost_price stock min_stock unit\<close>; the
    stock is \<open>None\<close> where the column is not assigned (parts 000 and 001)
  \<^item> \<open>Insert_sale user_id total payment_method\<close>
  \<^item> \<open>Insert_sale_item sale_id product_id quantity price cost_price\<close>
  \<^item> \<open>Decrement_stock quantity id\<close>:
    \<^verbatim>\<open>UPDATE products SET stock_quantity = stock_quantity - ? WHERE id = ?\<close>
  \<^item> \<open>Set_stock id value\<close>: \<^verbatim>\<open>update({ stock_quantity: value }).eq('id', id)\<close>
  \<^item> \<open>Insert_stock_movement product_id user_id type quantity reason\<close>
  \<^item> \<open>Insert_audit_log user_id action entity details\<close>
\<close>

datatype stmt =
    Insert_user string string string string
  | Insert_product string string string real "real option" "int option" int string
  | Update_product nat string string string real "real option" "int option" int string
  | Insert_sale nat real string
  | Insert_sale_item nat nat int real "real option"
  | Decrement_stock int nat
  | Set_stock nat int
  | Insert_stock_movement nat nat string int template
  | Insert_audit_log nat string string template

text \<open>
  \<^verbatim>\<open>INTEGER PRIMARY KEY AUTOINCREMENT\<close>: one more than the largest key in use. No server
  deletes a row, so this is also the largest key ever used.
\<close>

definition next_id :: "nat list \<Rightarrow> nat" where
  "next_id ids = Suc (fold max ids 0)"

text \<open>The key an insert assigns (\<^verbatim>\<open>lastInsertRowid\<close>, \<^verbatim>\<open>data.id\<close>); 0 for an update.\<close>

fun new_rowid :: "db \<Rightarrow> stmt \<Rightarrow> nat" where
  "new_rowid d (Insert_user un pw n r) = next_id (map u_id (users d))"
| "new_rowid d (Insert_product c n cat pr cp st ms un) = next_id (map p_id (products d))"
| "new_rowid d (Update_product i c n cat pr cp st ms un) = 0"
| "new_rowid d (Insert_sale uid tot pm) = next_id (map s_id (sales d))"
| "new_rowid d (Insert_sale_item sid pid q pr cp) = next_id (map si_id (sale_items d))"
| "new_rowid d (Decrement_stock q i) = 0"
| "new_rowid d (Set_stock i v) = 0"
| "new_rowid d (Insert_stock_movement pid uid ty q rs) = next_id (map sm_id (stock_movements d))"
| "new_rowid d (Insert_audit_log uid a en dt) = next_id (map al_id (audit_logs d))"

definition update_where_id :: "nat \<Rightarrow> (product \<Rightarrow> product) \<Rightarrow> product list \<Rightarrow> product list" where
  "update_where_id i f ps = map (\<lambda>p. if p_id p = i then f p else p) ps"

text \<open>The effect of a statement the store accepts; \<open>now\<close> is \<^verbatim>\<open>CURRENT_TIMESTAMP\<close>.\<close>

fun apply_stmt :: "timestamp \<Rightarrow> stmt \<Rightarrow> db \<Rightarrow> db" where
  "apply_stmt now (Insert_user un pw n r) d =
     d\<lparr>users := users d @
       [\<lparr>u_id = next_id (map u_id (users d)), u_username = un, u_password = pw, u_name = n,
         u_role = r, u_created_at = now\<rparr>]\<rparr>"
| "apply_stmt now (Insert_product c n cat pr cp st ms un) d =
     d\<lparr>products := products d @
       [\<lparr>p_id = next_id (map p_id (products d)), p_code = c, p_name = n, p_category = cat,
         p_price = pr, p_cost_price = cp,
         p_stock_quantity = (case st of None \<Rightarrow> 0 | Some v \<Rightarrow> v),
         p_min_stock = ms, p_unit = un, p_created_at = now\<rparr>]\<rparr>"
| "apply_stmt now (Update_product i c n cat pr cp st ms un) d =
     d\<lparr>products := update_where_id i
       (\<lambda>p. p\<lparr>p_code := c, p_name := n, p_category := cat, p_price := pr, p_cost_price := cp,
              p_stock_quantity := (case st of None \<Rightarrow> p_stock_quantity p | Some v \<Rightarrow> v),
              p_min_stock := ms, p_unit := un\<rparr>) (products d)\<rparr>"
| "apply_stmt now (Insert_sale uid tot pm) d =
     d\<lparr>sales := sales d @
       [\<lparr>s_id = next_id (map s_id (sales d)), s_user_id = uid, s_total = tot,
         s_payment_method = pm, s_created_at = now\<rparr>]\<rparr>"
| "apply_stmt now (Insert_sale_item sid pid q pr cp) d =
     d\<lparr>sale_items := sale_items d @
       [\<lparr>si_id = next_id (map si_id (sale_items d)), si_sale_id = sid, si_product_id = pid,
         si_quantity = q, si_price = pr, si_cost_price = cp\<rparr>]\<rparr>"
| "apply_stmt now (Decrement_stock q i) d =
     d\<lparr>products := update_where_id i
       (\<lambda>p. p\<lparr>p_stock_quantity := p_stock_quantity p - q\<rparr>) (products d)\<rparr>"
| "apply_stmt now (Set_stock i v) d =
     d\<lparr>products := update_where_id i (\<lambda>p. p\<lparr>p_stock_quantity := v\<rparr>) (products d)\<rparr>"
| "apply_stmt now (Insert_stock_movement pid uid ty q rs) d =
     d\<lparr>stock_movements := stock_movements d @
       [\<lparr>sm_id = next_id (map sm_id (stock_movements d)), sm_product_id = pid,
         sm_user_id = uid, sm_type = ty, sm_quantity = q, sm_reason = rs,
         sm_created_at = now\<rparr>]\<rparr>"
| "apply_stmt now (Insert_audit_log uid a en dt) d =
     d\<lparr>audit_logs := audit_logs d @
       [\<lparr>al_id = next_id (map al_id (audit_logs d)), al_user_id = uid, al_action = a,
         al_entity = en, al_details = dt, al_created_at = now\<rparr>]\<rparr>"

subsection \<open>The constraints of the schema\<close>

text \<open>
  What the \<^verbatim>\<open>CREATE TABLE\<close> statements of parts 000 and 001 make the store refuse:
  \<^verbatim>\<open>UNIQUE\<close> on \<^verbatim>\<open>users.username\<close> and \<^verbatim>\<open>products.code\<close>, the two
  \<^verbatim>\<open>CHECK\<close> constraints, and the \<^verbatim>\<open>FOREIGN KEY\<close> references when the store
  enforces them (\<open>fk\<close>). The schema has no constraint on \<^verbatim>\<open>stock_quantity\<close>.
\<close>

definition schema_rejects :: "bool \<Rightarrow> db \<Rightarrow> stmt \<Rightarrow> bool" where
  "schema_rejects fk d s =
     (case s of
        Insert_user un pw n r \<Rightarrow>
          un \<in> set (map u_username (users d)) \<or> r \<notin> {''Dono'', ''Gerente'', ''Vendedor''}
      | Insert_product c n cat pr cp st ms un \<Rightarrow> c \<in> set (map p_code (products d))
      | Update_product i c n cat pr cp st ms un \<Rightarrow>
          i \<in> set (map p_id (products d)) \<and>
          c \<in> set (map p_code (filter (\<lambda>p. p_id p \<noteq> i) (products d)))
      | Insert_sale uid tot pm \<Rightarrow> fk \<and> uid \<notin> set (map u_id (users d))
      | Insert_sale_item sid pid q pr cp \<Rightarrow>
          fk \<and> (sid \<notin> set (map s_id (sales d)) \<or> pid \<notin> set (map p_id (products d)))
      | Decrement_stock q i \<Rightarrow> False
      | Set_stock i v \<Rightarrow> False
      | Insert_stock_movement pid uid ty q rs \<Rightarrow>
          ty \<notin> {''IN'', ''OUT'', ''ADJ''} \<or>
          (fk \<and> (pid \<notin> set (map p_id (products d)) \<or> uid \<notin> set (map u_id (users d))))
      | Insert_audit_log uid a en dt \<Rightarrow> fk \<and> uid \<notin> set (map u_id (users d)))"

subsection \<open>What the servers take from outside\<close>

text \<open>The payload of a verified token: \<^verbatim>\<open>{ id, username, role }\<close>.\<close>

record claims =
  c_id :: nat
  c_username :: string
  c_role :: string

text \<open>
  The collaborators the servers call and do not define: which statements the store refuses
  in a given state (\<open>rejects\<close>), \<^verbatim>\<open>jwt.verify\<close> and \<^verbatim>\<open>jwt.sign\<close> with the
  server's secret, \<^verbatim>\<open>bcrypt\<close>, the clock: \<^verbatim>\<open>CURRENT_TIMESTAMP\<close> (\<open>now\<close>, one
  value for a request), SQLite's \<^verbatim>\<open>date('now', '-7 days')\<close>, and the three instants the
  hosted paths compute with \<^verbatim>\<open>new Date()\<close>; and how each store reads the text of
  \<^verbatim>\<open>req.params.id\<close> when it compares it with the key of a product: the key it
  denotes, if any. The embedded store finds no row for a text that denotes no key; the hosted
  store fails the query. \<open>sqlite_number\<close> is the number the embedded store reads a text as
  where a column has numeric affinity, if the text looks like a number.
\<close>

record env =
  rejects :: "db \<Rightarrow> stmt \<Rightarrow> bool"
  jwt_verify :: "string \<Rightarrow> claims option"
  jwt_sign :: "claims \<Rightarrow> string"
  bcrypt_compare :: "string \<Rightarrow> string \<Rightarrow> bool"
  bcrypt_hash :: "string \<Rightarrow> string"
  now :: timestamp
  date_minus_7_days :: string
  iso_today :: string
  iso_start_of_month :: string
  iso_seven_days_ago :: string
  sqlite_id :: "string \<Rightarrow> nat option"
  hosted_id :: "string \<Rightarrow> nat option"
  sqlite_number :: "string \<Rightarrow> real option"

section \<open>Requests and responses\<close>

record product_body =
  b_code :: string
  b_name :: string
  b_category :: string
  b_price :: real
  b_cost_price :: "real option"
  b_stock_quantity :: "int option"
  b_min_stock :: int
  b_unit :: string

record item =
  i_id :: nat
  i_quantity :: int
  i_price :: real

record sale_body =
  sb_items :: "item list"
  sb_payment_method :: string
  sb_total :: real

record user_body =
  ub_username :: string
  ub_password :: string
  ub_name :: string
  ub_role :: string

text \<open>The query parameters \<^verbatim>\<open>from\<close> and \<^verbatim>\<open>to\<close>, each present or not.\<close>

record range =
  q_from :: "string option"
  q_to :: "string option"

datatype route =
    Post_auth_login string string
  | Get_dashboard_stats range
  | Get_products
  | Post_products product_body
  | Put_products string product_body
  | Post_sales sale_body
  | Get_stock_movements range
  | Get_audit range
  | Get_users
  | Post_users user_body
  | Get_reports_sales range

record request =
  authorization :: "string option"
  route :: route

text \<open>
  The JSON bodies the servers send. \<open>Stats\<close> holds \<^verbatim>\<open>today.count\<close>,
  \<^verbatim>\<open>today.total\<close>, \<^verbatim>\<open>month.total\<close>, \<^verbatim>\<open>criticalStock\<close> and
  \<^verbatim>\<open>chartData\<close>; \<open>Session\<close> the token and the user's id, username, name and role;
  a top product is its name, \<^verbatim>\<open>total_qty\<close> and \<^verbatim>\<open>total_revenue\<close>. A joined name is
  \<open>None\<close> where the hosted path reads \<^verbatim>\<open>undefined\<close>. \<open>Unhandled\<close> is the error page
  of the framework for an exception no handler catches.
\<close>

datatype body =
    Message string
  | Id nat
  | Success
  | Session string nat string string string
  | Stats nat real real nat "(string \<times> real) list"
  | Product_list "product list"
  | Movement_list "(stock_movement \<times> string option \<times> string option) list"
  | Audit_list "(audit_log \<times> string option) list"
  | User_list "(nat \<times> string \<times> string \<times> string \<times> timestamp) list"
  | Sales_report "(sale \<times> string option) list" "(string option \<times> int \<times> real) list"
  | Unhandled

datatype response = Response nat body

text \<open>The two bytes of UTF-8 for the letters with an accent in the messages.\<close>

definition a_acute :: string where
  "a_acute = [CHR 0xC3, CHR 0xA1]"

definition a_tilde :: string where
  "a_tilde = [CHR 0xC3, CHR 0xA3]"

definition msg_acesso_negado :: string where
  "msg_acesso_negado = ''Acesso negado''"

definition msg_token_invalido :: string where
  "msg_token_invalido = ''Token inv'' @ a_acute @ ''lido''"

definition msg_sem_permissao :: string where
  "msg_sem_permissao = ''Sem permiss'' @ a_tilde @ ''o''"

definition msg_acesso_restrito :: string where
  "msg_acesso_restrito = ''Acesso restrito ao propriet'' @ a_acute @ ''rio''"

definition msg_login_invalido :: string where
  "msg_login_invalido = ''Usu'' @ a_acute @ ''rio ou senha inv'' @ a_acute @ ''lidos''"

definition msg_erro_criar_produto :: string where
  "msg_erro_criar_produto = ''Erro ao criar produto (C'' @ [CHR 0xC3, CHR 0xB3] @ ''digo duplicado?)''"

definition msg_erro_atualizar_produto :: string where
  "msg_erro_atualizar_produto = ''Erro ao atualizar produto''"

definition msg_erro_processar_venda :: string where
  "msg_erro_processar_venda = ''Erro ao processar venda''"

definition msg_erro_criar_usuario :: string where
  "msg_erro_criar_usuario =
     ''Erro ao criar usu'' @ a_acute @ ''rio (Login j'' @ a_acute @ '' existe?)''"

section \<open>The access gate\<close>

text \<open>
  \<^verbatim>\<open>authHeader && authHeader.split(' ')[1]\<close>: nothing without a header, with an empty
  header or with a header that has no space; otherwise the text between the first space and
  the second.
\<close>

definition bearer_token :: "string option \<Rightarrow> string option" where
  "bearer_token h =
     (case h of
        None \<Rightarrow> None
      | Some a \<Rightarrow>
          if CHR '' '' \<notin> set a then None
          else Some (takeWhile (\<lambda>c. c \<noteq> CHR '' '') (tl (dropWhile (\<lambda>c. c \<noteq> CHR '' '') a))))"

text \<open>
  \<^verbatim>\<open>authenticateToken\<close>, the same in the three servers: 401 when there is no token
  (\<^verbatim>\<open>!token\<close> also holds for the empty string), 403 when \<^verbatim>\<open>jwt.verify\<close> fails,
  otherwise the handler runs with the payload as \<^verbatim>\<open>req.user\<close>.
\<close>

definition authenticateToken :: "env \<Rightarrow> string option \<Rightarrow> response + claims" where
  "authenticateToken e h =
     (case bearer_token h of
        None \<Rightarrow> Inl (Response 401 (Message msg_acesso_negado))
      | Some t \<Rightarrow>
          if t = [] then Inl (Response 401 (Message msg_acesso_negado))
          else (case jwt_verify e t of
                  None \<Rightarrow> Inl (Response 403 (Message msg_token_invalido))
                | Some u \<Rightarrow> Inr u))"

section \<open>Queries\<close>

text \<open>\<^verbatim>\<open>from && to\<close>: both parameters present and not empty.\<close>

definition range_of :: "range \<Rightarrow> (string \<times> string) option" where
  "range_of q =
     (case (q_from q, q_to q) of
        (Some f, Some t) \<Rightarrow> if f \<noteq> [] \<and> t \<noteq> [] then Some (f, t) else None
      | _ \<Rightarrow> None)"

text \<open>
  SQLite's \<^verbatim>\<open>date(x)\<close> and \<^verbatim>\<open>strftime('%m', x)\<close> on the text of a timestamp
  (\<^verbatim>\<open>YYYY-MM-DD HH:MM:SS\<close>).
\<close>

definition sql_date :: "timestamp \<Rightarrow> string" where
  "sql_date x = take 10 x"

definition sql_month :: "timestamp \<Rightarrow> string" where
  "sql_month x = take 2 (drop 5 x)"

text \<open>
  Comparisons in the embedded store. The \<^verbatim>\<open>created_at\<close> columns are declared
  \<^verbatim>\<open>DATETIME\<close>, which gives them numeric affinity: a text that looks like a number is
  kept, and a bound compared with the column is read, as that number. Every number comes
  before every text; texts are ordered by their bytes.
\<close>

datatype sqlite_value = Sql_number real | Sql_text string

definition sqlite_value_of :: "env \<Rightarrow> string \<Rightarrow> sqlite_value" where
  "sqlite_value_of e x = (case sqlite_number e x of Some r \<Rightarrow> Sql_number r | None \<Rightarrow> Sql_text x)"

fun sqlite_le :: "sqlite_value \<Rightarrow> sqlite_value \<Rightarrow> bool" where
  "sqlite_le (Sql_number a) (Sql_number b) = (a \<le> b)"
| "sqlite_le (Sql_number a) (Sql_text b) = True"
| "sqlite_le (Sql_text a) (Sql_number b) = False"
| "sqlite_le (Sql_text a) (Sql_text b) = (a \<le> b)"

text \<open>\<^verbatim>\<open>x >= a\<close> and \<^verbatim>\<open>x BETWEEN a AND b\<close> on a \<^verbatim>\<open>created_at\<close> column.\<close>

definition sqlite_from :: "env \<Rightarrow> string \<Rightarrow> timestamp \<Rightarrow> bool" where
  "sqlite_from e a x = sqlite_le (sqlite_value_of e a) (sqlite_value_of e x)"

definition sqlite_between :: "env \<Rightarrow> string \<Rightarrow> string \<Rightarrow> timestamp \<Rightarrow> bool" where
  "sqlite_between e a b x =
     (sqlite_le (sqlite_value_of e a) (sqlite_value_of e x) \<and>
      sqlite_le (sqlite_value_of e x) (sqlite_value_of e b))"

text \<open>
  \<^verbatim>\<open>.gte('created_at', a).lte('created_at', b)\<close> in the hosted store, which compares
  timestamps; the order of timestamps is taken as the order of their texts. Names are
  ordered by their bytes in both stores (the collation of the hosted store is not in the
  sources).
\<close>

definition between :: "string \<Rightarrow> string \<Rightarrow> string \<Rightarrow> bool" where
  "between a b x = (a \<le> x \<and> x \<le> b)"

text \<open>
  Rows grouped by a key, groups in the order their first row comes; each group keeps its
  first row, whose columns a \<^verbatim>\<open>GROUP BY\<close> query or a JavaScript object entry shows.
\<close>

fun group_by_key :: "('a \<Rightarrow> 'k) \<Rightarrow> 'a list \<Rightarrow> ('a \<times> 'a list) list" where
  "group_by_key key [] = []"
| "group_by_key key (x # xs) =
     (x, x # filter (\<lambda>y. key y = key x) xs) # group_by_key key (filter (\<lambda>y. key y \<noteq> key x) xs)"

text \<open>\<^verbatim>\<open>ORDER BY k DESC\<close>; the order among equal keys is the store's choice, here stable.\<close>

definition order_by_desc :: "('a \<Rightarrow> 'k::linorder) \<Rightarrow> 'a list \<Rightarrow> 'a list" where
  "order_by_desc k xs = rev (sort_key k (rev xs))"

section \<open>The embedded-store server (part 000)\<close>

text \<open>
  better-sqlite3 is synchronous: \<^verbatim>\<open>db.prepare(sql).run(args)\<close> either throws or has
  written when it returns, and a handler runs to its end before the next request starts.
\<close>

datatype error = SqliteError

definition run_stmt :: "env \<Rightarrow> stmt \<Rightarrow> db \<Rightarrow> error + (nat \<times> db)" where
  "run_stmt e s d =
     (if rejects e d s then Inl SqliteError else Inr (new_rowid d s, apply_stmt (now e) s d))"

text \<open>
  \<^verbatim>\<open>db.transaction(fn)\<close>: \<^verbatim>\<open>fn\<close> runs between \<^verbatim>\<open>BEGIN\<close> and
  \<^verbatim>\<open>COMMIT\<close>; when it throws, the store rolls back to the state at \<^verbatim>\<open>BEGIN\<close>
  and the exception goes on to the caller.
\<close>

definition transaction :: "(db \<Rightarrow> error + ('a \<times> db)) \<Rightarrow> db \<Rightarrow> (error + 'a) \<times> db" where
  "transaction fn d = (case fn d of Inl err \<Rightarrow> (Inl err, d) | Inr (x, d') \<Rightarrow> (Inr x, d'))"

definition logAudit :: "env \<Rightarrow> nat \<Rightarrow> string \<Rightarrow> string \<Rightarrow> template \<Rightarrow> db \<Rightarrow> error + db" where
  "logAudit e userId action entity details d =
     (case run_stmt e (Insert_audit_log userId action entity details) d of
        Inl err \<Rightarrow> Inl err
      | Inr (_, d') \<Rightarrow> Inr d')"

subsection \<open>\<^verbatim>\<open>POST /api/auth/login\<close>\<close>

definition login_details :: template where
  "login_details = [Lit (''Usu'' @ a_acute @ ''rio realizou login no sistema'')]"

definition post_auth_login :: "env \<Rightarrow> string \<Rightarrow> string \<Rightarrow> db \<Rightarrow> response \<times> db" where
  "post_auth_login e username password d =
     (case find (\<lambda>u. u_username u = username) (users d) of
        None \<Rightarrow> (Response 401 (Message msg_login_invalido), d)
      | Some u \<Rightarrow>
          if bcrypt_compare e password (u_password u) then
            (case logAudit e (u_id u) ''LOGIN'' ''AUTH'' login_details d of
               Inl err \<Rightarrow> (Response 500 Unhandled, d)
             | Inr d' \<Rightarrow>
                 (Response 200
                    (Session (jwt_sign e \<lparr>c_id = u_id u, c_username = u_username u, c_role = u_role u\<rparr>)
                       (u_id u) (u_username u) (u_name u) (u_role u)), d'))
          else (Response 401 (Message msg_login_invalido), d))"

subsection \<open>\<^verbatim>\<open>GET /api/dashboard/stats\<close>\<close>

text \<open>\<^verbatim>\<open>SELECT date(created_at), SUM(total) ... GROUP BY date(created_at) ORDER BY date ASC\<close>\<close>

definition chart_by_date :: "sale list \<Rightarrow> (string \<times> real) list" where
  "chart_by_date rows =
     sort_key fst
       (map (\<lambda>(s, g). (sql_date (s_created_at s), sum_list (map s_total g)))
          (group_by_key (\<lambda>s. sql_date (s_created_at s)) rows))"

text \<open>
  \<^verbatim>\<open>SELECT COUNT(*) as count FROM products WHERE stock_quantity <= min_stock\<close>, then
  \<^verbatim>\<open>criticalStock.count || 0\<close>.
\<close>

definition criticalStock :: "db \<Rightarrow> nat" where
  "criticalStock d = length (filter (\<lambda>p. p_stock_quantity p \<le> p_min_stock p) (products d))"

text \<open>
  In part 000 \<^verbatim>\<open>monthSales\<close> is \<^verbatim>\<open>SUM(total)\<close> over the sales whose month number is
  the current one; the query takes no parameter.
\<close>

definition monthSales :: "env \<Rightarrow> db \<Rightarrow> real" where
  "monthSales e d =
     sum_list (map s_total (filter (\<lambda>s. sql_month (s_created_at s) = sql_month (now e)) (sales d)))"

definition get_dashboard_stats :: "env \<Rightarrow> range \<Rightarrow> db \<Rightarrow> response" where
  "get_dashboard_stats e q d =
     (let todaySales =
            (case range_of q of
               Some (f, t) \<Rightarrow> filter (\<lambda>s. sqlite_between e f t (s_created_at s)) (sales d)
             | None \<Rightarrow> filter (\<lambda>s. sql_date (s_created_at s) = sql_date (now e)) (sales d));
          chartRows =
            (case range_of q of
               Some (f, t) \<Rightarrow> filter (\<lambda>s. sqlite_between e f t (s_created_at s)) (sales d)
             | None \<Rightarrow> filter (\<lambda>s. sqlite_from e (date_minus_7_days e) (s_created_at s)) (sales d))
      in Response 200
           (Stats (length todaySales) (sum_list (map s_total todaySales)) (monthSales e d)
              (criticalStock d) (chart_by_date chartRows)))"

subsection \<open>Products\<close>

definition get_products :: "db \<Rightarrow> response" where
  "get_products d = Response 200 (Product_list (sort_key p_name (products d)))"

definition product_details :: "string \<Rightarrow> product_body \<Rightarrow> template" where
  "product_details verb b = [Lit verb, Lit (b_name b), Lit '' ('', Lit (b_code b), Lit '')'']"

text \<open>
  The \<^verbatim>\<open>try\<close> block is no transaction: when the insert has run and
  \<^verbatim>\<open>logAudit\<close> throws, the product stays and the answer is 400.
\<close>

definition post_products :: "env \<Rightarrow> claims \<Rightarrow> product_body \<Rightarrow> db \<Rightarrow> response \<times> db" where
  "post_products e u b d =
     (if c_role u = ''Vendedor'' then (Response 403 (Message msg_sem_permissao), d)
      else
        (case run_stmt e (Insert_product (b_code b) (b_name b) (b_category b) (b_price b)
                (b_cost_price b) None (b_min_stock b) (b_unit b)) d of
           Inl err \<Rightarrow> (Response 400 (Message msg_erro_criar_produto), d)
         | Inr (rowid, d1) \<Rightarrow>
             (case logAudit e (c_id u) ''CREATE'' ''PRODUCT'' (product_details ''Produto criado: '' b) d1 of
                Inl err \<Rightarrow> (Response 400 (Message msg_erro_criar_produto), d1)
              | Inr d2 \<Rightarrow> (Response 200 (Id rowid), d2))))"

text \<open>
  \<^verbatim>\<open>UPDATE products SET ... WHERE id = ?\<close> with the text of the path parameter: a
  statement that finds no row writes nothing and violates nothing.
\<close>

definition put_products :: "env \<Rightarrow> claims \<Rightarrow> string \<Rightarrow> product_body \<Rightarrow> db \<Rightarrow> response \<times> db" where
  "put_products e u i b d =
     (if c_role u = ''Vendedor'' then (Response 403 (Message msg_sem_permissao), d)
      else
        (case (case sqlite_id e i of
                 None \<Rightarrow> Inr (0, d)
               | Some n \<Rightarrow>
                   run_stmt e (Update_product n (b_code b) (b_name b) (b_category b) (b_price b)
                     (b_cost_price b) None (b_min_stock b) (b_unit b)) d) of
           Inl err \<Rightarrow> (Response 400 (Message msg_erro_atualizar_produto), d)
         | Inr (_, d1) \<Rightarrow>
             (case logAudit e (c_id u) ''UPDATE'' ''PRODUCT''
                     (product_details ''Produto atualizado: '' b) d1 of
                Inl err \<Rightarrow> (Response 400 (Message msg_erro_atualizar_produto), d1)
              | Inr d2 \<Rightarrow> (Response 200 Success, d2))))"

subsection \<open>\<^verbatim>\<open>POST /api/sales\<close>\<close>

definition sale_reason :: "nat \<Rightarrow> template" where
  "sale_reason saleId = [Lit ''Venda #'', Num saleId]"

definition sale_details :: "nat \<Rightarrow> real \<Rightarrow> template" where
  "sale_details saleId tot =
     [Lit ''Venda realizada: ID #'', Num saleId, Lit '', Total R$ '', Amount tot]"

text \<open>The body of \<^verbatim>\<open>for (const item of items)\<close>: three statements for an item.\<close>

fun sale_lines :: "env \<Rightarrow> claims \<Rightarrow> nat \<Rightarrow> item list \<Rightarrow> db \<Rightarrow> error + db" where
  "sale_lines e u saleId [] d = Inr d"
| "sale_lines e u saleId (it # its) d =
     (case run_stmt e (Insert_sale_item saleId (i_id it) (i_quantity it) (i_price it) None) d of
        Inl err \<Rightarrow> Inl err
      | Inr (_, d1) \<Rightarrow>
          (case run_stmt e (Decrement_stock (i_quantity it) (i_id it)) d1 of
             Inl err \<Rightarrow> Inl err
           | Inr (_, d2) \<Rightarrow>
               (case run_stmt e (Insert_stock_movement (i_id it) (c_id u) ''OUT'' (i_quantity it)
                       (sale_reason saleId)) d2 of
                  Inl err \<Rightarrow> Inl err
                | Inr (_, d3) \<Rightarrow> sale_lines e u saleId its d3)))"

text \<open>The function given to \<^verbatim>\<open>db.transaction\<close>; part 000 logs the audit entry inside it.\<close>

definition sale_transaction :: "env \<Rightarrow> claims \<Rightarrow> sale_body \<Rightarrow> db \<Rightarrow> error + (nat \<times> db)" where
  "sale_transaction e u b d =
     (case run_stmt e (Insert_sale (c_id u) (sb_total b) (sb_payment_method b)) d of
        Inl err \<Rightarrow> Inl err
      | Inr (saleId, d1) \<Rightarrow>
          (case sale_lines e u saleId (sb_items b) d1 of
             Inl err \<Rightarrow> Inl err
           | Inr d2 \<Rightarrow>
               (case logAudit e (c_id u) ''SALE'' ''SALES'' (sale_details saleId (sb_total b)) d2 of
                  Inl err \<Rightarrow> Inl err
                | Inr d3 \<Rightarrow> Inr (saleId, d3))))"

definition post_sales :: "env \<Rightarrow> claims \<Rightarrow> sale_body \<Rightarrow> db \<Rightarrow> response \<times> db" where
  "post_sales e u b d =
     (case transaction (sale_transaction e u b) d of
        (Inr saleId, d') \<Rightarrow> (Response 200 (Id saleId), d')
      | (Inl err, d') \<Rightarrow> (Response 500 (Message msg_erro_processar_venda), d'))"

subsection \<open>Ledgers, users and reports\<close>

text \<open>
  \<^verbatim>\<open>FROM stock_movements sm JOIN products p ON sm.product_id = p.id JOIN users u ON
  sm.user_id = u.id [WHERE sm.created_at BETWEEN ? AND ?] ORDER BY sm.created_at DESC LIMIT 100\<close>
\<close>

definition get_stock_movements :: "env \<Rightarrow> range \<Rightarrow> db \<Rightarrow> response" where
  "get_stock_movements e q d =
     (let rows = [(m, Some (p_name p), Some (u_name w)).
                    m \<leftarrow> stock_movements d, p \<leftarrow> products d, p_id p = sm_product_id m,
                    w \<leftarrow> users d, u_id w = sm_user_id m];
          kept = (case range_of q of
                    Some (f, t) \<Rightarrow> filter (\<lambda>(m, _, _). sqlite_between e f t (sm_created_at m)) rows
                  | None \<Rightarrow> rows)
      in Response 200 (Movement_list (take 100 (order_by_desc (\<lambda>(m, _, _). sm_created_at m) kept))))"

definition get_audit :: "env \<Rightarrow> claims \<Rightarrow> range \<Rightarrow> db \<Rightarrow> response" where
  "get_audit e u q d =
     (if c_role u \<noteq> ''Dono'' then Response 403 (Message msg_acesso_restrito)
      else
        (let rows = [(l, Some (u_name w)). l \<leftarrow> audit_logs d, w \<leftarrow> users d, u_id w = al_user_id l];
             kept = (case range_of q of
                       Some (f, t) \<Rightarrow> filter (\<lambda>(l, _). sqlite_between e f t (al_created_at l)) rows
                     | None \<Rightarrow> rows)
         in Response 200 (Audit_list (take 200 (order_by_desc (\<lambda>(l, _). al_created_at l) kept)))))"

definition get_users :: "claims \<Rightarrow> db \<Rightarrow> response" where
  "get_users u d =
     (if c_role u \<noteq> ''Dono'' then Response 403 (Message msg_acesso_negado)
      else Response 200
             (User_list (map (\<lambda>w. (u_id w, u_username w, u_name w, u_role w, u_created_at w))
                (sort_key u_name (users d)))))"

definition user_details :: "user_body \<Rightarrow> template" where
  "user_details b =
     [Lit (''Usu'' @ a_acute @ ''rio criado: ''), Lit (ub_username b), Lit '' ('', Lit (ub_role b),
      Lit '')'']"

definition post_users :: "env \<Rightarrow> claims \<Rightarrow> user_body \<Rightarrow> db \<Rightarrow> response \<times> db" where
  "post_users e u b d =
     (if c_role u \<noteq> ''Dono'' then (Response 403 (Message msg_acesso_negado), d)
      else
        (case run_stmt e (Insert_user (ub_username b) (bcrypt_hash e (ub_password b)) (ub_name b)
                (ub_role b)) d of
           Inl err \<Rightarrow> (Response 400 (Message msg_erro_criar_usuario), d)
         | Inr (rowid, d1) \<Rightarrow>
             (case logAudit e (c_id u) ''CREATE'' ''USER'' (user_details b) d1 of
                Inl err \<Rightarrow> (Response 400 (Message msg_erro_criar_usuario), d1)
              | Inr d2 \<Rightarrow> (Response 200 (Id rowid), d2))))"

text \<open>The date filter of the report: \<^verbatim>\<open>WHERE s.created_at BETWEEN ? AND ?\<close>, or none.\<close>

definition in_report_range :: "env \<Rightarrow> range \<Rightarrow> sale \<Rightarrow> bool" where
  "in_report_range e q s =
     (case range_of q of Some (f, t) \<Rightarrow> sqlite_between e f t (s_created_at s) | None \<Rightarrow> True)"

text \<open>
  \<^verbatim>\<open>SELECT p.name, SUM(si.quantity) as total_qty, SUM(si.quantity * si.price) as
  total_revenue FROM sale_items si JOIN products p ON si.product_id = p.id JOIN sales s ON
  si.sale_id = s.id [WHERE s.created_at BETWEEN ? AND ?] GROUP BY p.id ORDER BY total_revenue
  DESC LIMIT 10\<close>
\<close>

definition total_revenue :: "(string option \<times> int \<times> real) \<Rightarrow> real" where
  "total_revenue r = snd (snd r)"

definition topProducts :: "env \<Rightarrow> range \<Rightarrow> db \<Rightarrow> (string option \<times> int \<times> real) list" where
  "topProducts e q d =
     (let rows = [(p, si). si \<leftarrow> sale_items d, p \<leftarrow> products d, p_id p = si_product_id si,
                    s \<leftarrow> sales d, s_id s = si_sale_id si, in_report_range e q s];
          stats = map (\<lambda>((p, _), g).
                    (Some (p_name p), sum_list (map (\<lambda>(_, si). si_quantity si) g),
                     sum_list (map (\<lambda>(_, si). real_of_int (si_quantity si) * si_price si) g)))
                  (group_by_key (\<lambda>(p, _). p_id p) rows)
      in take 10 (order_by_desc total_revenue stats))"

definition get_reports_sales :: "env \<Rightarrow> range \<Rightarrow> db \<Rightarrow> response" where
  "get_reports_sales e q d =
     (let rows = [(s, Some (u_name w)).
                    s \<leftarrow> sales d, w \<leftarrow> users d, u_id w = s_user_id s, in_report_range e q s]
      in Response 200
           (Sales_report (order_by_desc (\<lambda>(s, _). s_created_at s) rows) (topProducts e q d)))"

subsection \<open>The routes of part 000\<close>

definition api :: "env \<Rightarrow> request \<Rightarrow> db \<Rightarrow> response \<times> db" where
  "api e r d =
     (case route r of
        Post_auth_login username password \<Rightarrow> post_auth_login e username password d
      | rt \<Rightarrow>
          (case authenticateToken e (authorization r) of
             Inl refusal \<Rightarrow> (refusal, d)
           | Inr u \<Rightarrow>
               (case rt of
                  Get_dashboard_stats q \<Rightarrow> (get_dashboard_stats e q d, d)
                | Get_products \<Rightarrow> (get_products d, d)
                | Post_products b \<Rightarrow> post_products e u b d
                | Put_products i b \<Rightarrow> put_products e u i b d
                | Post_sales b \<Rightarrow> post_sales e u b d
                | Get_stock_movements q \<Rightarrow> (get_stock_movements e q d, d)
                | Get_audit q \<Rightarrow> (get_audit e u q d, d)
                | Get_users \<Rightarrow> (get_users u d, d)
                | Post_users b \<Rightarrow> post_users e u b d
                | Get_reports_sales q \<Rightarrow> (get_reports_sales e q d, d)
                | Post_auth_login username password \<Rightarrow> post_auth_login e username password d)))"

section \<open>The hosted store: handlers that wait\<close>

text \<open>
  A hosted handler is an \<^verbatim>\<open>async\<close> function: it runs until it awaits a call to the
  store, and goes on with the answer. Three calls occur: a write whose answer is only
  whether it failed (\<^verbatim>\<open>insert\<close> and \<^verbatim>\<open>update\<close>, the handlers mostly ignore the
  answer), an insert that returns the new row (\<^verbatim>\<open>insert(...).select()\<close>, of which the
  handlers use the id), and a read, which shows the state of the store at that moment.
  supabase-js does not throw when the store refuses a statement: it returns
  \<^verbatim>\<open>{ data: null, error }\<close>. A write fails when the store refuses the statement; a
  read fails only where the query itself is at fault (\<^verbatim>\<open>.single()\<close> without exactly
  one row, an operand the store cannot read).
\<close>

datatype 'a prog =
    Return 'a
  | Await_write stmt "bool \<Rightarrow> 'a prog"
  | Await_insert_select stmt "nat option \<Rightarrow> 'a prog"
  | Await_read "db \<Rightarrow> 'a prog"

text \<open>One request served alone, from its first call to its response.\<close>

primrec run_prog :: "env \<Rightarrow> 'a prog \<Rightarrow> db \<Rightarrow> 'a \<times> db" where
  "run_prog e (Return x) = (\<lambda>d. (x, d))"
| "run_prog e (Await_write s k) =
     (\<lambda>d. if rejects e d s then run_prog e (k False) d
          else run_prog e (k True) (apply_stmt (now e) s d))"
| "run_prog e (Await_insert_select s k) =
     (\<lambda>d. if rejects e d s then run_prog e (k None) d
          else run_prog e (k (Some (new_rowid d s))) (apply_stmt (now e) s d))"
| "run_prog e (Await_read k) = (\<lambda>d. run_prog e (k d) d)"

text \<open>How many statements the store refused while the request was served alone.\<close>

primrec refused :: "env \<Rightarrow> 'a prog \<Rightarrow> db \<Rightarrow> nat" where
  "refused e (Return x) = (\<lambda>d. 0)"
| "refused e (Await_write s k) =
     (\<lambda>d. if rejects e d s then Suc (refused e (k False) d)
          else refused e (k True) (apply_stmt (now e) s d))"
| "refused e (Await_insert_select s k) =
     (\<lambda>d. if rejects e d s then Suc (refused e (k None) d)
          else refused e (k (Some (new_rowid d s))) (apply_stmt (now e) s d))"
| "refused e (Await_read k) = (\<lambda>d. refused e (k d) d)"

text \<open>
  Requests in flight together: the event loop runs one handler up to its next
  \<^verbatim>\<open>await\<close>, then any handler may go on. \<open>step\<close> is one call of one handler; a
  schedule names the handler that moves next.
\<close>

fun step :: "env \<Rightarrow> 'a prog \<Rightarrow> db \<Rightarrow> 'a prog \<times> db" where
  "step e (Return x) d = (Return x, d)"
| "step e (Await_write s k) d =
     (if rejects e d s then (k False, d) else (k True, apply_stmt (now e) s d))"
| "step e (Await_insert_select s k) d =
     (if rejects e d s then (k None, d) else (k (Some (new_rowid d s)), apply_stmt (now e) s d))"
| "step e (Await_read k) d = (k d, d)"

fun interleave :: "env \<Rightarrow> nat list \<Rightarrow> 'a prog list \<Rightarrow> db \<Rightarrow> 'a prog list \<times> db" where
  "interleave e [] ps d = (ps, d)"
| "interleave e (i # sched) ps d =
     (if i < length ps
      then (case step e (ps ! i) d of (p', d') \<Rightarrow> interleave e sched (ps[i := p']) d')
      else interleave e sched ps d)"

text \<open>\<^verbatim>\<open>.single()\<close>: the row when the query finds exactly one, no data otherwise.\<close>

definition single :: "'a list \<Rightarrow> 'a option" where
  "single rows = (case rows of [r] \<Rightarrow> Some r | _ \<Rightarrow> None)"

definition h_logAudit :: "nat \<Rightarrow> string \<Rightarrow> string \<Rightarrow> template \<Rightarrow> 'a prog \<Rightarrow> 'a prog" where
  "h_logAudit userId action entity details k =
     Await_write (Insert_audit_log userId action entity details) (\<lambda>_. k)"

section \<open>Recording a sale in the hosted-store server (part 002)\<close>

text \<open>
  The handler's own comment: ``Supabase doesn't support multi-table transactions in the
  same way as raw SQL via client. We'll perform them sequentially. For production, consider
  using a Supabase RPC (Postgres Function).'' Only the answer to the first insert is looked
  at; the stock is read, then written back less the quantity.
\<close>

fun h_sale_lines :: "claims \<Rightarrow> nat \<Rightarrow> item list \<Rightarrow> 'a prog \<Rightarrow> 'a prog" where
  "h_sale_lines u saleId [] k = k"
| "h_sale_lines u saleId (it # its) k =
     Await_write (Insert_sale_item saleId (i_id it) (i_quantity it) (i_price it) None) (\<lambda>_.
       Await_read (\<lambda>d.
         (case single (filter (\<lambda>p. p_id p = i_id it) (products d)) of
            Some product \<Rightarrow>
              Await_write (Set_stock (i_id it) (p_stock_quantity product - i_quantity it)) (\<lambda>_.
                Await_write (Insert_stock_movement (i_id it) (c_id u) ''OUT'' (i_quantity it)
                    (sale_reason saleId)) (\<lambda>_.
                  h_sale_lines u saleId its k))
          | None \<Rightarrow>
              Await_write (Insert_stock_movement (i_id it) (c_id u) ''OUT'' (i_quantity it)
                  (sale_reason saleId)) (\<lambda>_.
                h_sale_lines u saleId its k))))"

definition h_post_sales :: "claims \<Rightarrow> sale_body \<Rightarrow> response prog" where
  "h_post_sales u b =
     Await_insert_select (Insert_sale (c_id u) (sb_total b) (sb_payment_method b)) (\<lambda>sale.
       (case sale of
          None \<Rightarrow> Return (Response 500 (Message msg_erro_processar_venda))
        | Some saleId \<Rightarrow>
            h_sale_lines u saleId (sb_items b)
              (h_logAudit (c_id u) ''SALE'' ''SALES'' (sale_details saleId (sb_total b))
                 (Return (Response 200 (Id saleId))))))"

section \<open>Recording a sale in the dual server (part 001)\<close>

text \<open>
  The embedded path snapshots the product's \<^verbatim>\<open>cost_price\<close> into the sale item
  (\<^verbatim>\<open>product ? product.cost_price : 0\<close>) and logs the audit entry after the transaction,
  without awaiting it: an exception there reaches no \<^verbatim>\<open>catch\<close> and the answer is sent.
\<close>

fun d_sale_lines :: "env \<Rightarrow> claims \<Rightarrow> nat \<Rightarrow> item list \<Rightarrow> db \<Rightarrow> error + db" where
  "d_sale_lines e u saleId [] d = Inr d"
| "d_sale_lines e u saleId (it # its) d =
     (let costPrice = (case find (\<lambda>p. p_id p = i_id it) (products d) of
                         Some product \<Rightarrow> p_cost_price product
                       | None \<Rightarrow> Some 0)
      in case run_stmt e (Insert_sale_item saleId (i_id it) (i_quantity it) (i_price it) costPrice) d of
           Inl err \<Rightarrow> Inl err
         | Inr (_, d1) \<Rightarrow>
             (case run_stmt e (Decrement_stock (i_quantity it) (i_id it)) d1 of
                Inl err \<Rightarrow> Inl err
              | Inr (_, d2) \<Rightarrow>
                  (case run_stmt e (Insert_stock_movement (i_id it) (c_id u) ''OUT''
                          (i_quantity it) (sale_reason saleId)) d2 of
                     Inl err \<Rightarrow> Inl err
                   | Inr (_, d3) \<Rightarrow> d_sale_lines e u saleId its d3)))"

definition d_sale_transaction :: "env \<Rightarrow> claims \<Rightarrow> sale_body \<Rightarrow> db \<Rightarrow> error + (nat \<times> db)" where
  "d_sale_transaction e u b d =
     (case run_stmt e (Insert_sale (c_id u) (sb_total b) (sb_payment_method b)) d of
        Inl err \<Rightarrow> Inl err
      | Inr (saleId, d1) \<Rightarrow>
          (case d_sale_lines e u saleId (sb_items b) d1 of
             Inl err \<Rightarrow> Inl err
           | Inr d2 \<Rightarrow> Inr (saleId, d2)))"

definition d_post_sales :: "env \<Rightarrow> claims \<Rightarrow> sale_body \<Rightarrow> db \<Rightarrow> response \<times> db" where
  "d_post_sales e u b d =
     (case transaction (d_sale_transaction e u b) d of
        (Inr saleId, d') \<Rightarrow>
          (case logAudit e (c_id u) ''SALE'' ''SALES'' (sale_details saleId (sb_total b)) d' of
             Inl err \<Rightarrow> (Response 200 (Id saleId), d')
           | Inr d'' \<Rightarrow> (Response 200 (Id saleId), d''))
      | (Inl err, d') \<Rightarrow> (Response 500 (Message msg_erro_processar_venda), d'))"

text \<open>
  The hosted path reads the product first (\<^verbatim>\<open>prodData?.cost_price || 0\<close>,
  \<^verbatim>\<open>(prodData?.stock_quantity || 0) - item.quantity\<close>), then writes the item, the new
  stock and the movement, looking at no answer; only a failed insert of the sale throws.
\<close>

fun dh_sale_lines :: "claims \<Rightarrow> nat \<Rightarrow> item list \<Rightarrow> 'a prog \<Rightarrow> 'a prog" where
  "dh_sale_lines u saleId [] k = k"
| "dh_sale_lines u saleId (it # its) k =
     Await_read (\<lambda>d.
       (let prodData = single (filter (\<lambda>p. p_id p = i_id it) (products d));
            costPrice = (case prodData of
                           None \<Rightarrow> 0
                         | Some p \<Rightarrow> (case p_cost_price p of None \<Rightarrow> 0 | Some c \<Rightarrow> c));
            newStock = (case prodData of None \<Rightarrow> 0 | Some p \<Rightarrow> p_stock_quantity p)
                         - i_quantity it
        in Await_write (Insert_sale_item saleId (i_id it) (i_quantity it) (i_price it)
               (Some costPrice)) (\<lambda>_.
             Await_write (Set_stock (i_id it) newStock) (\<lambda>_.
               Await_write (Insert_stock_movement (i_id it) (c_id u) ''OUT'' (i_quantity it)
                   (sale_reason saleId)) (\<lambda>_.
                 dh_sale_lines u saleId its k)))))"

definition dh_post_sales :: "claims \<Rightarrow> sale_body \<Rightarrow> response prog" where
  "dh_post_sales u b =
     Await_insert_select (Insert_sale (c_id u) (sb_total b) (sb_payment_method b)) (\<lambda>saleData.
       (case saleData of
          None \<Rightarrow> Return (Response 500 (Message msg_erro_processar_venda))
        | Some saleId \<Rightarrow>
            dh_sale_lines u saleId (sb_items b)
              (h_logAudit (c_id u) ''SALE'' ''SALES'' (sale_details saleId (sb_total b))
                 (Return (Response 200 (Id saleId))))))"

section \<open>The other routes of the hosted-store server (part 002)\<close>

subsection \<open>What JavaScript and the hosted store do with text\<close>

definition is_digit :: "char \<Rightarrow> bool" where
  "is_digit c \<longleftrightarrow> c \<in> set ''0123456789''"

definition nat_of_digits :: "string \<Rightarrow> nat" where
  "nat_of_digits s = foldl (\<lambda>n c. 10 * n + (of_char c - 48)) 0 s"

text \<open>
  The hosted store reads the operand of a filter on an integer column as an integer
  literal: an optional sign and digits. Any other text makes the query fail.
\<close>

definition pg_integer :: "string \<Rightarrow> int option" where
  "pg_integer v =
     (case v of
        [] \<Rightarrow> None
      | c # cs \<Rightarrow>
          if c = CHR ''-'' \<and> cs \<noteq> [] \<and> list_all is_digit cs then Some (- int (nat_of_digits cs))
          else if c = CHR ''+'' \<and> cs \<noteq> [] \<and> list_all is_digit cs then Some (int (nat_of_digits cs))
          else if list_all is_digit (c # cs) then Some (int (nat_of_digits (c # cs)))
          else None)"

text \<open>
  \<^verbatim>\<open>.select('*', { count: 'exact', head: true }).lte('stock_quantity', v)\<close>: the number
  of products whose stock is at most the value \<open>v\<close>; no count when the query fails. The
  second argument of \<^verbatim>\<open>lte\<close> is a value, never the name of a column.
\<close>

definition count_lte_stock_quantity :: "string \<Rightarrow> product list \<Rightarrow> nat option" where
  "count_lte_stock_quantity v ps =
     (case pg_integer v of
        None \<Rightarrow> None
      | Some n \<Rightarrow> Some (length (filter (\<lambda>p. p_stock_quantity p \<le> n) ps)))"

text \<open>
  A JavaScript object used as a dictionary, as the list of its entries in the order the
  keys were first set. \<open>upsert k init f\<close> is
  \<^verbatim>\<open>if (!m[k]) m[k] = init; m[k] = f(m[k])\<close>.
\<close>

fun upsert :: "string \<Rightarrow> 'v \<Rightarrow> ('v \<Rightarrow> 'v) \<Rightarrow> (string \<times> 'v) list \<Rightarrow> (string \<times> 'v) list" where
  "upsert k init f [] = [(k, f init)]"
| "upsert k init f ((k', v) # m) =
     (if k' = k then (k', f v) # m else (k', v) # upsert k init f m)"

text \<open>
  \<^verbatim>\<open>Object.entries\<close> and \<^verbatim>\<open>Object.values\<close> list the keys that are array indices
  first, in ascending order, then the other keys in the order they were set.
\<close>

definition array_index :: "string \<Rightarrow> nat option" where
  "array_index k =
     (if k \<noteq> [] \<and> list_all is_digit k \<and> (take 1 k \<noteq> ''0'' \<or> k = ''0'') \<and>
         nat_of_digits k < 4294967295
      then Some (nat_of_digits k) else None)"

definition object_entries :: "(string \<times> 'v) list \<Rightarrow> (string \<times> 'v) list" where
  "object_entries m =
     sort_key (\<lambda>(k, v). case array_index k of Some n \<Rightarrow> n | None \<Rightarrow> 0)
       (filter (\<lambda>(k, v). array_index k \<noteq> None) m) @
     filter (\<lambda>(k, v). array_index k = None) m"

definition object_values :: "(string \<times> 'v) list \<Rightarrow> 'v list" where
  "object_values m = map snd (object_entries m)"

text \<open>\<^verbatim>\<open>created_at.split('T')[0]\<close>\<close>

definition iso_date :: "timestamp \<Rightarrow> string" where
  "iso_date x = takeWhile (\<lambda>c. c \<noteq> CHR ''T'') x"

text \<open>\<^verbatim>\<open>.gte('created_at', from).lte('created_at', to)\<close> when both are given.\<close>

definition in_range :: "range \<Rightarrow> timestamp \<Rightarrow> bool" where
  "in_range q x = (case range_of q of Some (f, t) \<Rightarrow> between f t x | None \<Rightarrow> True)"

subsection \<open>Login and dashboard\<close>

text \<open>The handler is modelled with \<^verbatim>\<open>SUPABASE_URL\<close> and the key configured.\<close>

definition h_post_auth_login :: "env \<Rightarrow> string \<Rightarrow> string \<Rightarrow> response prog" where
  "h_post_auth_login e username password =
     Await_read (\<lambda>d.
       (case single (filter (\<lambda>w. u_username w = username) (users d)) of
          None \<Rightarrow> Return (Response 401 (Message msg_login_invalido))
        | Some w \<Rightarrow>
            if bcrypt_compare e password (u_password w) then
              h_logAudit (u_id w) ''LOGIN'' ''AUTH'' login_details
                (Return (Response 200
                   (Session (jwt_sign e \<lparr>c_id = u_id w, c_username = u_username w, c_role = u_role w\<rparr>)
                      (u_id w) (u_username w) (u_name w) (u_role w))))
            else Return (Response 401 (Message msg_login_invalido))))"

text \<open>
  \<^verbatim>\<open>chartRaw?.forEach(sale => { chartDataMap[date] = (chartDataMap[date] || 0) +
  parseFloat(sale.total) })\<close>, then \<^verbatim>\<open>Object.entries\<close>.
\<close>

definition chart_map :: "sale list \<Rightarrow> (string \<times> real) list" where
  "chart_map chartRaw =
     foldl (\<lambda>m s. upsert (iso_date (s_created_at s)) 0 (\<lambda>t. t + s_total s) m) [] chartRaw"

text \<open>
  The four queries of the dashboard, each awaited in turn. The source writes the filter of
  the third as \<^verbatim>\<open>.lte('stock_quantity', 'min_stock')\<close>, with the comment ``This might
  need a raw filter if complex, but supabase-js supports basic lte''.
\<close>

definition h_get_dashboard_stats :: "env \<Rightarrow> range \<Rightarrow> response prog" where
  "h_get_dashboard_stats e q =
     Await_read (\<lambda>d1.
       (let todaySales =
              (case range_of q of
                 Some (f, t) \<Rightarrow> filter (\<lambda>s. between f t (s_created_at s)) (sales d1)
               | None \<Rightarrow>
                   filter (\<lambda>s. between (iso_today e @ ''T00:00:00'') (iso_today e @ ''T23:59:59'')
                                 (s_created_at s)) (sales d1))
        in Await_read (\<lambda>d2.
          (let monthSales = filter (\<lambda>s. iso_start_of_month e \<le> s_created_at s) (sales d2)
           in Await_read (\<lambda>d3.
             (let criticalStockCount = count_lte_stock_quantity ''min_stock'' (products d3)
              in Await_read (\<lambda>d4.
                (let chartRaw = sort_key s_created_at
                       (filter (\<lambda>s. iso_seven_days_ago e \<le> s_created_at s) (sales d4))
                 in Return (Response 200
                      (Stats (length todaySales) (sum_list (map s_total todaySales))
                         (sum_list (map s_total monthSales))
                         (case criticalStockCount of None \<Rightarrow> 0 | Some n \<Rightarrow> n)
                         (object_entries (chart_map chartRaw))))))))))))"

subsection \<open>Products\<close>

definition h_get_products :: "response prog" where
  "h_get_products = Await_read (\<lambda>d. Return (Response 200 (Product_list (sort_key p_name (products d)))))"

text \<open>\<^verbatim>\<open>stock_quantity: stock_quantity || 0\<close>\<close>

definition stock_or_0 :: "product_body \<Rightarrow> int" where
  "stock_or_0 b = (case b_stock_quantity b of None \<Rightarrow> 0 | Some v \<Rightarrow> v)"

definition h_post_products :: "claims \<Rightarrow> product_body \<Rightarrow> response prog" where
  "h_post_products u b =
     (if c_role u = ''Vendedor'' then Return (Response 403 (Message msg_sem_permissao))
      else
        Await_insert_select
          (Insert_product (b_code b) (b_name b) (b_category b) (b_price b) (b_cost_price b)
             (Some (stock_or_0 b)) (b_min_stock b) (b_unit b)) (\<lambda>data.
          (case data of
             None \<Rightarrow> Return (Response 400 (Message msg_erro_criar_produto))
           | Some rowid \<Rightarrow>
               h_logAudit (c_id u) ''CREATE'' ''PRODUCT'' (product_details ''Produto criado: '' b)
                 (Return (Response 200 (Id rowid))))))"

text \<open>
  \<^verbatim>\<open>update({...}).eq('id', id)\<close>, then \<^verbatim>\<open>if (error) return res.status(400)\<close>: the
  query fails when the store cannot read the text as a key.
\<close>

definition h_put_products :: "env \<Rightarrow> claims \<Rightarrow> string \<Rightarrow> product_body \<Rightarrow> response prog" where
  "h_put_products e u i b =
     (if c_role u = ''Vendedor'' then Return (Response 403 (Message msg_sem_permissao))
      else
        (case hosted_id e i of
           None \<Rightarrow> Await_read (\<lambda>_. Return (Response 400 (Message msg_erro_atualizar_produto)))
         | Some n \<Rightarrow>
             Await_write
               (Update_product n (b_code b) (b_name b) (b_category b) (b_price b) (b_cost_price b)
                  (Some (stock_or_0 b)) (b_min_stock b) (b_unit b)) (\<lambda>ok.
               if ok then
                 h_logAudit (c_id u) ''UPDATE'' ''PRODUCT''
                   (product_details ''Produto atualizado: '' b) (Return (Response 200 Success))
               else Return (Response 400 (Message msg_erro_atualizar_produto)))))"

subsection \<open>Ledgers, users and reports\<close>

text \<open>
  \<^verbatim>\<open>select('*, products(name), users(name)')\<close> embeds the referenced row, or nothing
  when there is none.
\<close>

definition product_name_of :: "db \<Rightarrow> nat \<Rightarrow> string option" where
  "product_name_of d i = map_option p_name (find (\<lambda>p. p_id p = i) (products d))"

definition user_name_of :: "db \<Rightarrow> nat \<Rightarrow> string option" where
  "user_name_of d i = map_option u_name (find (\<lambda>w. u_id w = i) (users d))"

definition h_get_stock_movements :: "range \<Rightarrow> response prog" where
  "h_get_stock_movements q =
     Await_read (\<lambda>d.
       Return (Response 200
         (Movement_list
            (map (\<lambda>m. (m, product_name_of d (sm_product_id m), user_name_of d (sm_user_id m)))
               (take 100 (order_by_desc sm_created_at
                  (filter (\<lambda>m. in_range q (sm_created_at m)) (stock_movements d))))))))"

definition h_get_audit :: "claims \<Rightarrow> range \<Rightarrow> response prog" where
  "h_get_audit u q =
     (if c_role u \<noteq> ''Dono'' then Return (Response 403 (Message msg_acesso_restrito))
      else
        Await_read (\<lambda>d.
          Return (Response 200
            (Audit_list
               (map (\<lambda>l. (l, user_name_of d (al_user_id l)))
                  (take 200 (order_by_desc al_created_at
                     (filter (\<lambda>l. in_range q (al_created_at l)) (audit_logs d)))))))))"

definition h_get_users :: "claims \<Rightarrow> response prog" where
  "h_get_users u =
     (if c_role u \<noteq> ''Dono'' then Return (Response 403 (Message msg_acesso_negado))
      else
        Await_read (\<lambda>d.
          Return (Response 200
            (User_list (map (\<lambda>w. (u_id w, u_username w, u_name w, u_role w, u_created_at w))
               (sort_key u_name (users d)))))))"

definition h_post_users :: "env \<Rightarrow> claims \<Rightarrow> user_body \<Rightarrow> response prog" where
  "h_post_users e u b =
     (if c_role u \<noteq> ''Dono'' then Return (Response 403 (Message msg_acesso_negado))
      else
        Await_insert_select
          (Insert_user (ub_username b) (bcrypt_hash e (ub_password b)) (ub_name b) (ub_role b))
          (\<lambda>data.
            (case data of
               None \<Rightarrow> Return (Response 400 (Message msg_erro_criar_usuario))
             | Some rowid \<Rightarrow>
                 h_logAudit (c_id u) ''CREATE'' ''USER'' (user_details b)
                   (Return (Response 200 (Id rowid))))))"

text \<open>
  The top products of part 002. The query for the items carries no date filter: the
  \<^verbatim>\<open>if (from && to)\<close> block holds only the comment ``This filter is tricky on joined
  tables in supabase-js, so we filter by sale_id if needed. For now, we'll fetch all and
  filter in memory if the period is short.'' The statistics are keyed by the product's name
  (the key of a missing name is the text \<^verbatim>\<open>undefined\<close>).
\<close>

definition productStats :: "db \<Rightarrow> (string \<times> (string option \<times> int \<times> real)) list" where
  "productStats d =
     foldl (\<lambda>m si.
         (let name = product_name_of d (si_product_id si)
          in upsert (case name of None \<Rightarrow> ''undefined'' | Some n \<Rightarrow> n) (name, 0, 0)
               (\<lambda>(n, total_qty, revenue).
                  (n, total_qty + si_quantity si,
                   revenue + real_of_int (si_quantity si) * si_price si)) m))
       [] (sale_items d)"

definition h_topProducts :: "db \<Rightarrow> (string option \<times> int \<times> real) list" where
  "h_topProducts d = take 10 (order_by_desc total_revenue (object_values (productStats d)))"

definition h_get_reports_sales :: "range \<Rightarrow> response prog" where
  "h_get_reports_sales q =
     Await_read (\<lambda>d1.
       (let sales_rows = map (\<lambda>s. (s, user_name_of d1 (s_user_id s)))
              (order_by_desc s_created_at (filter (\<lambda>s. in_range q (s_created_at s)) (sales d1)))
        in Await_read (\<lambda>d2.
             Return (Response 200 (Sales_report sales_rows (h_topProducts d2))))))"

subsection \<open>The routes of part 002\<close>

definition h_api :: "env \<Rightarrow> request \<Rightarrow> response prog" where
  "h_api e r =
     (case route r of
        Post_auth_login username password \<Rightarrow> h_post_auth_login e username password
      | rt \<Rightarrow>
          (case authenticateToken e (authorization r) of
             Inl refusal \<Rightarrow> Return refusal
           | Inr u \<Rightarrow>
               (case rt of
                  Get_dashboard_stats q \<Rightarrow> h_get_dashboard_stats e q
                | Get_products \<Rightarrow> h_get_products
                | Post_products b \<Rightarrow> h_post_products u b
                | Put_products i b \<Rightarrow> h_put_products e u i b
                | Post_sales b \<Rightarrow> h_post_sales u b
                | Get_stock_movements q \<Rightarrow> h_get_stock_movements q
                | Get_audit q \<Rightarrow> h_get_audit u q
                | Get_users \<Rightarrow> h_get_users u
                | Post_users b \<Rightarrow> h_post_users e u b
                | Get_reports_sales q \<Rightarrow> h_get_reports_sales q
                | Post_auth_login username password \<Rightarrow> h_post_auth_login e username password)))"

section \<open>The dashboard of the dual server (part 001)\<close>

text \<open>
  The embedded path: \<^verbatim>\<open>SELECT SUM(si.quantity * (si.price - IFNULL(si.cost_price, 0)))
  as net_profit FROM sale_items si JOIN sales s ON si.sale_id = s.id\<close> with the filter
  \<^verbatim>\<open>WHERE s.created_at BETWEEN ? AND ?\<close> when both parameters are given and
  \<^verbatim>\<open>WHERE strftime('%m', s.created_at) = strftime('%m', 'now')\<close> otherwise.
\<close>

definition item_profit :: "sale_item \<Rightarrow> real" where
  "item_profit si =
     real_of_int (si_quantity si) *
       (si_price si - (case si_cost_price si of None \<Rightarrow> 0 | Some c \<Rightarrow> c))"

definition d_profit_filter :: "env \<Rightarrow> range \<Rightarrow> sale \<Rightarrow> bool" where
  "d_profit_filter e q s =
     (case range_of q of
        Some (f, t) \<Rightarrow> sqlite_between e f t (s_created_at s)
      | None \<Rightarrow> sql_month (s_created_at s) = sql_month (now e))"

definition d_net_profit :: "env \<Rightarrow> range \<Rightarrow> db \<Rightarrow> real" where
  "d_net_profit e q d =
     sum_list [item_profit si. si \<leftarrow> sale_items d, s \<leftarrow> sales d, s_id s = si_sale_id si,
                 d_profit_filter e q s]"

definition d_get_dashboard_stats :: "env \<Rightarrow> range \<Rightarrow> db \<Rightarrow> response" where
  "d_get_dashboard_stats e q d =
     (let todaySales =
            (case range_of q of
               Some (f, t) \<Rightarrow> filter (\<lambda>s. sqlite_between e f t (s_created_at s)) (sales d)
             | None \<Rightarrow> filter (\<lambda>s. sql_date (s_created_at s) = sql_date (now e)) (sales d));
          chartRows =
            (case range_of q of
               Some (f, t) \<Rightarrow> filter (\<lambda>s. sqlite_between e f t (s_created_at s)) (sales d)
             | None \<Rightarrow> filter (\<lambda>s. sqlite_from e (date_minus_7_days e) (s_created_at s)) (sales d))
      in Response 200
           (Stats (length todaySales) (sum_list (map s_total todaySales)) (d_net_profit e q d)
              (criticalStock d) (chart_by_date chartRows)))"

text \<open>
  The hosted path:
  \<^verbatim>\<open>supabase.from('sale_items').select('quantity, price, cost_price, sales!inner(created_at)')\<close>
  filtered on \<^verbatim>\<open>sales.created_at\<close> by the range, or from the start of the month, then
  \<^verbatim>\<open>reduce((acc, item) => acc + (item.quantity * (item.price - (item.cost_price || 0))), 0)\<close>.
\<close>

definition dh_profit_filter :: "env \<Rightarrow> range \<Rightarrow> sale \<Rightarrow> bool" where
  "dh_profit_filter e q s =
     (case range_of q of
        Some (f, t) \<Rightarrow> between f t (s_created_at s)
      | None \<Rightarrow> iso_start_of_month e \<le> s_created_at s)"

definition dh_net_profit :: "env \<Rightarrow> range \<Rightarrow> db \<Rightarrow> real" where
  "dh_net_profit e q d =
     sum_list [item_profit si. si \<leftarrow> sale_items d, s \<leftarrow> sales d, s_id s = si_sale_id si,
                 dh_profit_filter e q s]"

definition dh_get_dashboard_stats :: "env \<Rightarrow> range \<Rightarrow> response prog" where
  "dh_get_dashboard_stats e q =
     Await_read (\<lambda>d1.
       (let todayData =
              (case range_of q of
                 Some (f, t) \<Rightarrow> filter (\<lambda>s. between f t (s_created_at s)) (sales d1)
               | None \<Rightarrow>
                   filter (\<lambda>s. between (iso_today e @ ''T00:00:00'') (iso_today e @ ''T23:59:59'')
                                 (s_created_at s)) (sales d1))
        in Await_read (\<lambda>d2.
          (let netProfit = dh_net_profit e q d2
           in Await_read (\<lambda>d3.
             (let criticalCount = count_lte_stock_quantity ''min_stock'' (products d3)
              in Await_read (\<lambda>d4.
                (let chartRaw =
                       (case range_of q of
                          Some (f, t) \<Rightarrow> filter (\<lambda>s. between f t (s_created_at s)) (sales d4)
                        | None \<Rightarrow> filter (\<lambda>s. iso_seven_days_ago e \<le> s_created_at s) (sales d4))
                 in Return (Response 200
                      (Stats (length todayData) (sum_list (map s_total todayData)) netProfit
                         (case criticalCount of None \<Rightarrow> 0 | Some n \<Rightarrow> n)
                         (sort_key fst (object_entries (chart_map chartRaw)))))))))))))"


section \<open>What the properties speak of\<close>

text \<open>The quantity the line items of a sale take from product \<open>i\<close>.\<close>

definition sold :: "item list \<Rightarrow> nat \<Rightarrow> int" where
  "sold its i = sum_list (map i_quantity (filter (\<lambda>it. i_id it = i) its))"

text \<open>The products, each with its stock less what the line items take from it.\<close>

definition less_sold :: "item list \<Rightarrow> product list \<Rightarrow> product list" where
  "less_sold its ps =
     map (\<lambda>p. p\<lparr>p_stock_quantity := p_stock_quantity p - sold its (p_id p)\<rparr>) ps"

text \<open>One sale item, and one movement of type \<^verbatim>\<open>OUT\<close>, for each line item, in order.\<close>

definition item_rows :: "nat \<Rightarrow> item list \<Rightarrow> sale_item list \<Rightarrow> bool" where
  "item_rows saleId its rows \<longleftrightarrow>
     map (\<lambda>r. (si_sale_id r, si_product_id r, si_quantity r, si_price r)) rows =
     map (\<lambda>it. (saleId, i_id it, i_quantity it, i_price it)) its"

definition movement_rows :: "claims \<Rightarrow> nat \<Rightarrow> item list \<Rightarrow> stock_movement list \<Rightarrow> bool" where
  "movement_rows u saleId its rows \<longleftrightarrow>
     map (\<lambda>m. (sm_product_id m, sm_user_id m, sm_type m, sm_quantity m, sm_reason m)) rows =
     map (\<lambda>it. (i_id it, c_id u, ''OUT'', i_quantity it, sale_reason saleId)) its"

text \<open>
  What a recorded sale leaves: one more sale, the rows of its line items, one more audit
  entry, the stocks less the quantities sold, and the users as they were.
\<close>

definition sale_recorded :: "env \<Rightarrow> claims \<Rightarrow> sale_body \<Rightarrow> nat \<Rightarrow> db \<Rightarrow> db \<Rightarrow> bool" where
  "sale_recorded e u b saleId d d' \<longleftrightarrow>
     users d' = users d \<and>
     sales d' = sales d @ [\<lparr>s_id = saleId, s_user_id = c_id u, s_total = sb_total b,
                            s_payment_method = sb_payment_method b, s_created_at = now e\<rparr>] \<and>
     (\<exists>rows. sale_items d' = sale_items d @ rows \<and> item_rows saleId (sb_items b) rows) \<and>
     (\<exists>rows. stock_movements d' = stock_movements d @ rows \<and>
             movement_rows u saleId (sb_items b) rows) \<and>
     (\<exists>l. audit_logs d' = audit_logs d @ [l] \<and> al_user_id l = c_id u \<and> al_action l = ''SALE'' \<and>
          al_entity l = ''SALES'' \<and> al_details l = sale_details saleId (sb_total b)) \<and>
     products d' = less_sold (sb_items b) (products d)"


text \<open>The four ledgers of \<open>d'\<close> are those of \<open>d\<close> with rows added at the end.\<close>

definition ledgers_extended :: "db \<Rightarrow> db \<Rightarrow> bool" where
  "ledgers_extended d d' \<longleftrightarrow>
     prefix (sales d) (sales d') \<and> prefix (sale_items d) (sale_items d') \<and>
     prefix (stock_movements d) (stock_movements d') \<and> prefix (audit_logs d) (audit_logs d')"

subsection \<open>A store and requests to try the servers on\<close>

text \<open>
  The rows the embedded-store servers insert into an empty store when they start: the user
  \<^verbatim>\<open>admin\<close> and five products.
\<close>

definition seed :: "env \<Rightarrow> db" where
  "seed e =
     \<lparr>users = [\<lparr>u_id = 1, u_username = ''admin'', u_password = bcrypt_hash e ''admin123'',
                u_name = ''Administrador'', u_role = ''Dono'', u_created_at = now e\<rparr>],
      products =
        [\<lparr>p_id = 1, p_code = ''001'', p_name = ''Cimento CP-II 50kg'',
          p_category = ''B'' @ a_acute @ ''sico'', p_price = 32.90, p_cost_price = Some 25.00,
          p_stock_quantity = 100, p_min_stock = 20, p_unit = ''Saco'', p_created_at = now e\<rparr>,
         \<lparr>p_id = 2, p_code = ''002'', p_name = ''Argamassa AC-I 20kg'',
          p_category = ''B'' @ a_acute @ ''sico'', p_price = 15.50, p_cost_price = Some 10.00,
          p_stock_quantity = 50, p_min_stock = 15, p_unit = ''Saco'', p_created_at = now e\<rparr>,
         \<lparr>p_id = 3, p_code = ''003'', p_name = ''Tubo PVC 100mm 6m'',
          p_category = ''Hidr'' @ a_acute @ ''ulica'', p_price = 89.00, p_cost_price = Some 60.00,
          p_stock_quantity = 30, p_min_stock = 5, p_unit = ''Unidade'', p_created_at = now e\<rparr>,
         \<lparr>p_id = 4, p_code = ''004'',
          p_name = ''Fio Flex'' @ [CHR 0xC3, CHR 0xAD] @ ''vel 2.5mm 100m'',
          p_category = ''El'' @ [CHR 0xC3, CHR 0xA9] @ ''trica'', p_price = 245.00,
          p_cost_price = Some 180.00, p_stock_quantity = 10, p_min_stock = 3, p_unit = ''Rolo'',
          p_created_at = now e\<rparr>,
         \<lparr>p_id = 5, p_code = ''005'', p_name = ''Torneira Cozinha Metal'',
          p_category = ''Acabamento'', p_price = 120.00, p_cost_price = Some 75.00,
          p_stock_quantity = 15, p_min_stock = 5, p_unit = ''Unidade'', p_created_at = now e\<rparr>],
      sales = [], sale_items = [], stock_movements = [], audit_logs = []\<rparr>"

definition admin :: claims where
  "admin = \<lparr>c_id = 1, c_username = ''admin'', c_role = ''Dono''\<rparr>"

definition seller :: claims where
  "seller = \<lparr>c_id = 1, c_username = ''admin'', c_role = ''Vendedor''\<rparr>"

text \<open>
  Collaborators for the examples: a store that enforces the constraints of the schema,
  foreign keys included, a verifier that knows two tokens, a fixed clock, and stores that
  read a key, and a number, from decimal digits only.
\<close>

definition decimal :: "string \<Rightarrow> nat option" where
  "decimal s = (if s \<noteq> [] \<and> list_all is_digit s then Some (nat_of_digits s) else None)"

definition example_env :: env where
  "example_env =
     \<lparr>rejects = schema_rejects True,
      jwt_verify = (\<lambda>t. if t = ''owner'' then Some admin
                        else if t = ''seller'' then Some seller else None),
      jwt_sign = (\<lambda>c. c_username c),
      bcrypt_compare = (\<lambda>pw h. h = ''$'' @ pw),
      bcrypt_hash = (\<lambda>pw. ''$'' @ pw),
      now = ''2024-05-10 12:00:00'',
      date_minus_7_days = ''2024-05-03'',
      iso_today = ''2024-05-10'',
      iso_start_of_month = ''2024-05-01T00:00:00.000Z'',
      iso_seven_days_ago = ''2024-05-03T12:00:00.000Z'',
      sqlite_id = decimal, hosted_id = decimal,
      sqlite_number = (\<lambda>s. map_option real (decimal s))\<rparr>"

definition store :: db where
  "store = seed example_env"

text \<open>Three bags of the first product, at 32.90 each.\<close>

definition three_bags :: sale_body where
  "three_bags = \<lparr>sb_items = [\<lparr>i_id = 1, i_quantity = 3, i_price = 32.90\<rparr>],
                  sb_payment_method = ''Dinheiro'', sb_total = 98.70\<rparr>"

text \<open>The same, and one unit of a product the store does not hold.\<close>

definition bags_and_ghost :: sale_body where
  "bags_and_ghost = \<lparr>sb_items = [\<lparr>i_id = 1, i_quantity = 3, i_price = 32.90\<rparr>,
                                    \<lparr>i_id = 99, i_quantity = 1, i_price = 10\<rparr>],
                      sb_payment_method = ''Dinheiro'', sb_total = 108.70\<rparr>"

text \<open>More cement than the store holds.\<close>

definition all_the_cement :: sale_body where
  "all_the_cement = \<lparr>sb_items = [\<lparr>i_id = 1, i_quantity = 150, i_price = 32.90\<rparr>],
                      sb_payment_method = ''Pix'', sb_total = 4935\<rparr>"

text \<open>The store with eight bags of the first product, and a sale of five of them.\<close>

definition store8 :: db where
  "store8 = store\<lparr>products := update_where_id 1 (\<lambda>p. p\<lparr>p_stock_quantity := 8\<rparr>) (products store)\<rparr>"

definition five_units :: sale_body where
  "five_units = \<lparr>sb_items = [\<lparr>i_id = 1, i_quantity = 5, i_price = 32.90\<rparr>],
                  sb_payment_method = ''Dinheiro'', sb_total = 164.50\<rparr>"

text \<open>Bodies and parameters of further requests.\<close>

definition dearer_cement :: product_body where
  "dearer_cement = \<lparr>b_code = ''001'', b_name = ''Cimento CP-II 50kg'',
                     b_category = ''B'' @ a_acute @ ''sico'', b_price = 35.90,
                     b_cost_price = Some 27.00, b_stock_quantity = None, b_min_stock = 20,
                     b_unit = ''Saco''\<rparr>"

definition new_clerk :: user_body where
  "new_clerk = \<lparr>ub_username = ''ana'', ub_password = ''s3nha'', ub_name = ''Ana'',
                 ub_role = ''Vendedor''\<rparr>"

definition no_range :: range where
  "no_range = \<lparr>q_from = None, q_to = None\<rparr>"

text \<open>A range with no sale in it, and the stores after the sale of three bags.\<close>

definition far_range :: range where
  "far_range = \<lparr>q_from = Some ''2030-01-01'', q_to = Some ''2030-12-31''\<rparr>"

definition after_three_bags :: db where
  "after_three_bags = snd (post_sales example_env admin three_bags store)"

definition hosted_after_three_bags :: db where
  "hosted_after_three_bags = snd (run_prog example_env (h_post_sales admin three_bags) store)"




section \<open>Properties\<close>

lemmas example_defs = store_def seed_def admin_def seller_def example_env_def three_bags_def
  bags_and_ghost_def

lemmas handler_defs = schema_rejects_def post_sales_def transaction_def sale_transaction_def
  run_stmt_def logAudit_def next_id_def d_post_sales_def d_sale_transaction_def h_post_sales_def
  dh_post_sales_def h_logAudit_def single_def update_where_id_def Let_def

subsection \<open>Recording a sale: the rows it leaves\<close>

lemma less_sold_Nil: "less_sold [] ps = ps"
  by (induction ps) (simp_all add: less_sold_def sold_def)

lemma less_sold_Cons:
  "less_sold its (update_where_id (i_id it) (\<lambda>p. p\<lparr>p_stock_quantity := p_stock_quantity p - i_quantity it\<rparr>) ps)
   = less_sold (it # its) ps"
  by (induction ps) (simp_all add: less_sold_def sold_def update_where_id_def)

lemma sale_lines_effect:
  "sale_lines e u saleId its d = Inr d' \<Longrightarrow>
     users d' = users d \<and> sales d' = sales d \<and> audit_logs d' = audit_logs d \<and>
     (\<exists>rows. sale_items d' = sale_items d @ rows \<and> item_rows saleId its rows) \<and>
     (\<exists>rows. stock_movements d' = stock_movements d @ rows \<and> movement_rows u saleId its rows) \<and>
     products d' = less_sold its (products d)"
proof (induction its arbitrary: d)
  case Nil
  then show ?case by (simp add: item_rows_def movement_rows_def less_sold_Nil)
next
  case (Cons it its)
  let ?d1 = "apply_stmt (now e) (Insert_sale_item saleId (i_id it) (i_quantity it) (i_price it) None) d"
  let ?d2 = "apply_stmt (now e) (Decrement_stock (i_quantity it) (i_id it)) ?d1"
  let ?d3 = "apply_stmt (now e) (Insert_stock_movement (i_id it) (c_id u) ''OUT'' (i_quantity it) (sale_reason saleId)) ?d2"
  from Cons.prems have rest: "sale_lines e u saleId its ?d3 = Inr d'"
    by (auto simp: run_stmt_def split: if_splits)
  note ih = Cons.IH [OF rest]
  from ih obtain rows where rows: "sale_items d' = sale_items ?d3 @ rows" "item_rows saleId its rows"
    by blast
  from ih obtain ms where ms: "stock_movements d' = stock_movements ?d3 @ ms" "movement_rows u saleId its ms"
    by blast
  have "\<exists>rows'. sale_items d' = sale_items d @ rows' \<and> item_rows saleId (it # its) rows'"
    using rows by (simp add: item_rows_def)
  moreover have "\<exists>ms'. stock_movements d' = stock_movements d @ ms' \<and> movement_rows u saleId (it # its) ms'"
    using ms by (simp add: movement_rows_def)
  moreover have "products d' = less_sold (it # its) (products d)"
    using ih by (simp add: less_sold_Cons)
  moreover have "users d' = users d \<and> sales d' = sales d \<and> audit_logs d' = audit_logs d"
    using ih by simp
  ultimately show ?case by blast
qed

lemma logAudit_Inr:
  "logAudit e uid a en dt d = Inr d' \<longleftrightarrow>
     \<not> rejects e d (Insert_audit_log uid a en dt) \<and> d' = apply_stmt (now e) (Insert_audit_log uid a en dt) d"
  by (auto simp: logAudit_def run_stmt_def)

lemma sale_transaction_effect:
  assumes "sale_transaction e u b d = Inr (saleId, d')"
  shows "sale_recorded e u b saleId d d'"
proof -
  let ?s = "Insert_sale (c_id u) (sb_total b) (sb_payment_method b)"
  let ?d1 = "apply_stmt (now e) ?s d"
  from assms have sid: "saleId = new_rowid d ?s"
    by (auto simp: sale_transaction_def run_stmt_def split: if_splits sum.splits)
  from assms obtain d2 where
    lines: "sale_lines e u saleId (sb_items b) ?d1 = Inr d2" and
    audit: "logAudit e (c_id u) ''SALE'' ''SALES'' (sale_details saleId (sb_total b)) d2 = Inr d'"
    by (auto simp: sale_transaction_def run_stmt_def split: if_splits sum.splits)
  note eff = sale_lines_effect [OF lines]
  from audit have d': "d' = apply_stmt (now e) (Insert_audit_log (c_id u) ''SALE'' ''SALES'' (sale_details saleId (sb_total b))) d2"
    by (simp add: logAudit_Inr)
  show ?thesis
    unfolding sale_recorded_def using eff sid by (simp add: d')
qed

lemma post_sales_ok:
  assumes "post_sales e u b d = (Response 200 bd, d')"
  shows "\<exists>saleId. bd = Id saleId \<and> sale_recorded e u b saleId d d'"
proof -
  from assms obtain saleId where "sale_transaction e u b d = Inr (saleId, d')" "bd = Id saleId"
    by (auto simp: post_sales_def transaction_def split: sum.splits prod.splits)
  then show ?thesis using sale_transaction_effect by blast
qed

lemma d_sale_lines_effect:
  "d_sale_lines e u saleId its d = Inr d' \<Longrightarrow>
     users d' = users d \<and> sales d' = sales d \<and> audit_logs d' = audit_logs d \<and>
     (\<exists>rows. sale_items d' = sale_items d @ rows \<and> item_rows saleId its rows) \<and>
     (\<exists>rows. stock_movements d' = stock_movements d @ rows \<and> movement_rows u saleId its rows) \<and>
     products d' = less_sold its (products d)"
proof (induction its arbitrary: d)
  case Nil
  then show ?case by (simp add: item_rows_def movement_rows_def less_sold_Nil)
next
  case (Cons it its)
  define cp where "cp = (case find (\<lambda>p. p_id p = i_id it) (products d) of
                         Some product \<Rightarrow> p_cost_price product | None \<Rightarrow> Some 0)"
  let ?d1 = "apply_stmt (now e) (Insert_sale_item saleId (i_id it) (i_quantity it) (i_price it) cp) d"
  let ?d2 = "apply_stmt (now e) (Decrement_stock (i_quantity it) (i_id it)) ?d1"
  let ?d3 = "apply_stmt (now e) (Insert_stock_movement (i_id it) (c_id u) ''OUT'' (i_quantity it) (sale_reason saleId)) ?d2"
  from Cons.prems have rest: "d_sale_lines e u saleId its ?d3 = Inr d'"
    by (auto simp: run_stmt_def Let_def cp_def split: if_splits)
  note ih = Cons.IH [OF rest]
  from ih obtain rows where rows: "sale_items d' = sale_items ?d3 @ rows" "item_rows saleId its rows"
    by blast
  from ih obtain ms where ms: "stock_movements d' = stock_movements ?d3 @ ms" "movement_rows u saleId its ms"
    by blast
  have "\<exists>rows'. sale_items d' = sale_items d @ rows' \<and> item_rows saleId (it # its) rows'"
    using rows by (simp add: item_rows_def)
  moreover have "\<exists>ms'. stock_movements d' = stock_movements d @ ms' \<and> movement_rows u saleId (it # its) ms'"
    using ms by (simp add: movement_rows_def)
  moreover have "products d' = less_sold (it # its) (products d)"
    using ih by (simp add: less_sold_Cons)
  moreover have "users d' = users d \<and> sales d' = sales d \<and> audit_logs d' = audit_logs d"
    using ih by simp
  ultimately show ?case by blast
qed

lemma d_post_sales_ok:
  assumes "d_post_sales e u b d = (Response 200 (Id saleId), d')"
    and "\<not> rejects e (snd (transaction (d_sale_transaction e u b) d))
           (Insert_audit_log (c_id u) ''SALE'' ''SALES'' (sale_details saleId (sb_total b)))"
  shows "sale_recorded e u b saleId d d'"
proof -
  let ?s = "Insert_sale (c_id u) (sb_total b) (sb_payment_method b)"
  let ?d1 = "apply_stmt (now e) ?s d"
  from assms obtain d2 where
    tr: "d_sale_transaction e u b d = Inr (saleId, d2)" and
    d': "d' = apply_stmt (now e) (Insert_audit_log (c_id u) ''SALE'' ''SALES'' (sale_details saleId (sb_total b))) d2"
    by (auto simp: d_post_sales_def transaction_def logAudit_def run_stmt_def split: sum.splits prod.splits if_splits)
  from tr have sid: "saleId = new_rowid d ?s" and lines: "d_sale_lines e u saleId (sb_items b) ?d1 = Inr d2"
    by (auto simp: d_sale_transaction_def run_stmt_def split: if_splits sum.splits)
  note eff = d_sale_lines_effect [OF lines]
  show ?thesis
    unfolding sale_recorded_def using eff sid by (simp add: d')
qed

lemma single_Some_filter:
  "single xs = Some x \<longleftrightarrow> xs = [x]"
  by (auto simp: single_def split: list.splits)

lemma set_stock_as_decrement:
  assumes "single (filter (\<lambda>p. p_id p = i) ps) = Some p"
  shows "update_where_id i (\<lambda>x. x\<lparr>p_stock_quantity := p_stock_quantity p - q\<rparr>) ps =
         update_where_id i (\<lambda>x. x\<lparr>p_stock_quantity := p_stock_quantity x - q\<rparr>) ps"
proof -
  from assms have f: "filter (\<lambda>p. p_id p = i) ps = [p]"
    by (simp add: single_Some_filter)
  have "x = p" if "x \<in> set ps" "p_id x = i" for x
  proof -
    from that have "x \<in> set (filter (\<lambda>p. p_id p = i) ps)" by simp
    with f show ?thesis by simp
  qed
  then show ?thesis
    unfolding update_where_id_def by (intro map_cong) auto
qed

lemma filter_id_distinct:
  "distinct (map p_id ps) \<Longrightarrow> length (filter (\<lambda>p. p_id p = i) ps) \<le> 1"
  by (induction ps) (force simp: filter_empty_conv image_iff)+

lemma single_None_distinct:
  assumes "distinct (map p_id ps)" and "single (filter (\<lambda>p. p_id p = i) ps) = None"
  shows "filter (\<lambda>p. p_id p = i) ps = []"
proof -
  from filter_id_distinct [OF assms(1), of i] assms(2) show ?thesis
    by (cases "filter (\<lambda>p. p_id p = i) ps") (auto simp: single_def split: list.splits)
qed

lemma update_where_id_absent:
  "filter (\<lambda>p. p_id p = i) ps = [] \<Longrightarrow> update_where_id i f ps = ps"
  unfolding update_where_id_def by (induction ps) (auto split: if_splits)

lemma map_id_update_stock [simp]:
  "map p_id (update_where_id i (\<lambda>x. x\<lparr>p_stock_quantity := g x\<rparr>) ps) = map p_id ps"
  by (induction ps) (simp_all add: update_where_id_def)

lemma h_sale_lines_run:
  "distinct (map p_id (products d)) \<Longrightarrow> refused e (h_sale_lines u saleId its k) d = 0 \<Longrightarrow>
   \<exists>d2. run_prog e (h_sale_lines u saleId its k) d = run_prog e k d2 \<and> refused e k d2 = 0 \<and>
     users d2 = users d \<and> sales d2 = sales d \<and> audit_logs d2 = audit_logs d \<and>
     (\<exists>rows. sale_items d2 = sale_items d @ rows \<and> item_rows saleId its rows) \<and>
     (\<exists>rows. stock_movements d2 = stock_movements d @ rows \<and> movement_rows u saleId its rows) \<and>
     products d2 = less_sold its (products d)"
proof (induction its arbitrary: d)
  case Nil
  then show ?case by (auto simp: item_rows_def movement_rows_def less_sold_Nil)
next
  case (Cons it its)
  let ?dec = "\<lambda>x. x\<lparr>p_stock_quantity := p_stock_quantity x - i_quantity it\<rparr>"
  let ?s1 = "Insert_sale_item saleId (i_id it) (i_quantity it) (i_price it) None"
  let ?s3 = "Insert_stock_movement (i_id it) (c_id u) ''OUT'' (i_quantity it) (sale_reason saleId)"
  let ?d1 = "apply_stmt (now e) ?s1 d"
  let ?d2 = "?d1\<lparr>products := update_where_id (i_id it) ?dec (products d)\<rparr>"
  let ?d3 = "apply_stmt (now e) ?s3 ?d2"
  have run3: "run_prog e (h_sale_lines u saleId (it # its) k) d = run_prog e (h_sale_lines u saleId its k) ?d3
      \<and> refused e (h_sale_lines u saleId its k) ?d3 = 0"
  proof (cases "single (filter (\<lambda>p. p_id p = i_id it) (products d))")
    case None
    with Cons.prems(1) have "update_where_id (i_id it) ?dec (products d) = products d"
      by (simp add: single_None_distinct update_where_id_absent)
    then have "?d2 = ?d1" by simp
    with None Cons.prems(2) show ?thesis
      by (simp split: if_splits)
  next
    case (Some p)
    have "apply_stmt (now e) (Set_stock (i_id it) (p_stock_quantity p - i_quantity it)) ?d1 = ?d2"
      using set_stock_as_decrement [OF Some] by simp
    with Some Cons.prems(2) show ?thesis
      by (simp split: if_splits)
  qed
  have dist: "distinct (map p_id (products ?d3))"
    using Cons.prems(1) by simp
  from Cons.IH [OF dist conjunct2 [OF run3]] obtain d2 where
    d2: "run_prog e (h_sale_lines u saleId its k) ?d3 = run_prog e k d2" "refused e k d2 = 0"
      "users d2 = users ?d3" "sales d2 = sales ?d3" "audit_logs d2 = audit_logs ?d3"
      "\<exists>rows. sale_items d2 = sale_items ?d3 @ rows \<and> item_rows saleId its rows"
      "\<exists>rows. stock_movements d2 = stock_movements ?d3 @ rows \<and> movement_rows u saleId its rows"
      "products d2 = less_sold its (products ?d3)"
    by blast
  from d2(6) obtain rows where rows: "sale_items d2 = sale_items ?d3 @ rows" "item_rows saleId its rows"
    by blast
  from d2(7) obtain ms where ms: "stock_movements d2 = stock_movements ?d3 @ ms" "movement_rows u saleId its ms"
    by blast
  have "\<exists>rows'. sale_items d2 = sale_items d @ rows' \<and> item_rows saleId (it # its) rows'"
    using rows by (simp add: item_rows_def)
  moreover have "\<exists>ms'. stock_movements d2 = stock_movements d @ ms' \<and> movement_rows u saleId (it # its) ms'"
    using ms by (simp add: movement_rows_def)
  moreover have "products d2 = less_sold (it # its) (products d)"
    using d2(8) by (simp add: less_sold_Cons)
  moreover have "users d2 = users d \<and> sales d2 = sales d \<and> audit_logs d2 = audit_logs d"
    using d2 by simp
  moreover have "run_prog e (h_sale_lines u saleId (it # its) k) d = run_prog e k d2"
    using run3 d2(1) by simp
  ultimately show ?case using d2(2) by blast
qed

lemma dh_sale_lines_run:
  "distinct (map p_id (products d)) \<Longrightarrow> refused e (dh_sale_lines u saleId its k) d = 0 \<Longrightarrow>
   \<exists>d2. run_prog e (dh_sale_lines u saleId its k) d = run_prog e k d2 \<and> refused e k d2 = 0 \<and>
     users d2 = users d \<and> sales d2 = sales d \<and> audit_logs d2 = audit_logs d \<and>
     (\<exists>rows. sale_items d2 = sale_items d @ rows \<and> item_rows saleId its rows) \<and>
     (\<exists>rows. stock_movements d2 = stock_movements d @ rows \<and> movement_rows u saleId its rows) \<and>
     products d2 = less_sold its (products d)"
proof (induction its arbitrary: d)
  case Nil
  then show ?case by (auto simp: item_rows_def movement_rows_def less_sold_Nil)
next
  case (Cons it its)
  define prodData where "prodData = single (filter (\<lambda>p. p_id p = i_id it) (products d))"
  define cp where "cp = (case prodData of None \<Rightarrow> 0
                         | Some p \<Rightarrow> (case p_cost_price p of None \<Rightarrow> 0 | Some c \<Rightarrow> c))"
  define newStock where "newStock = (case prodData of None \<Rightarrow> 0 | Some p \<Rightarrow> p_stock_quantity p) - i_quantity it"
  let ?dec = "\<lambda>x. x\<lparr>p_stock_quantity := p_stock_quantity x - i_quantity it\<rparr>"
  let ?s1 = "Insert_sale_item saleId (i_id it) (i_quantity it) (i_price it) (Some cp)"
  let ?s3 = "Insert_stock_movement (i_id it) (c_id u) ''OUT'' (i_quantity it) (sale_reason saleId)"
  let ?d1 = "apply_stmt (now e) ?s1 d"
  let ?d2 = "?d1\<lparr>products := update_where_id (i_id it) ?dec (products d)\<rparr>"
  let ?d3 = "apply_stmt (now e) ?s3 ?d2"
  have set: "apply_stmt (now e) (Set_stock (i_id it) newStock) ?d1 = ?d2"
  proof (cases prodData)
    case None
    with Cons.prems(1) have "filter (\<lambda>p. p_id p = i_id it) (products d) = []"
      by (simp add: single_None_distinct prodData_def)
    then show ?thesis by (simp add: update_where_id_absent)
  next
    case (Some p)
    then show ?thesis
      using set_stock_as_decrement [of "i_id it" "products d" p "i_quantity it"]
      by (simp add: newStock_def prodData_def)
  qed
  have run3: "run_prog e (dh_sale_lines u saleId (it # its) k) d = run_prog e (dh_sale_lines u saleId its k) ?d3
      \<and> refused e (dh_sale_lines u saleId its k) ?d3 = 0"
    using Cons.prems(2) set
    by (simp add: Let_def prodData_def [symmetric] cp_def [symmetric] newStock_def [symmetric] split: if_splits)
  have dist: "distinct (map p_id (products ?d3))"
    using Cons.prems(1) by simp
  from Cons.IH [OF dist conjunct2 [OF run3]] obtain d2 where
    d2: "run_prog e (dh_sale_lines u saleId its k) ?d3 = run_prog e k d2" "refused e k d2 = 0"
      "users d2 = users ?d3" "sales d2 = sales ?d3" "audit_logs d2 = audit_logs ?d3"
      "\<exists>rows. sale_items d2 = sale_items ?d3 @ rows \<and> item_rows saleId its rows"
      "\<exists>rows. stock_movements d2 = stock_movements ?d3 @ rows \<and> movement_rows u saleId its rows"
      "products d2 = less_sold its (products ?d3)"
    by blast
  from d2(6) obtain rows where rows: "sale_items d2 = sale_items ?d3 @ rows" "item_rows saleId its rows"
    by blast
  from d2(7) obtain ms where ms: "stock_movements d2 = stock_movements ?d3 @ ms" "movement_rows u saleId its ms"
    by blast
  have "\<exists>rows'. sale_items d2 = sale_items d @ rows' \<and> item_rows saleId (it # its) rows'"
    using rows by (simp add: item_rows_def)
  moreover have "\<exists>ms'. stock_movements d2 = stock_movements d @ ms' \<and> movement_rows u saleId (it # its) ms'"
    using ms by (simp add: movement_rows_def)
  moreover have "products d2 = less_sold (it # its) (products d)"
    using d2(8) by (simp add: less_sold_Cons)
  moreover have "users d2 = users d \<and> sales d2 = sales d \<and> audit_logs d2 = audit_logs d"
    using d2 by simp
  moreover have "run_prog e (dh_sale_lines u saleId (it # its) k) d = run_prog e k d2"
    using run3 d2(1) by simp
  ultimately show ?case using d2(2) by blast
qed

lemma h_post_sales_ok:
  assumes dist: "distinct (map p_id (products d))"
    and ref: "refused e (h_post_sales u b) d = 0"
  shows "\<exists>saleId d'. run_prog e (h_post_sales u b) d = (Response 200 (Id saleId), d') \<and>
           sale_recorded e u b saleId d d'"
proof -
  let ?s = "Insert_sale (c_id u) (sb_total b) (sb_payment_method b)"
  let ?d1 = "apply_stmt (now e) ?s d"
  let ?sid = "new_rowid d ?s"
  let ?a = "Insert_audit_log (c_id u) ''SALE'' ''SALES'' (sale_details ?sid (sb_total b))"
  let ?k = "h_logAudit (c_id u) ''SALE'' ''SALES'' (sale_details ?sid (sb_total b))
              (Return (Response 200 (Id ?sid)))"
  from ref have acc: "\<not> rejects e d ?s"
    by (auto simp: h_post_sales_def split: if_splits)
  with ref have ref1: "refused e (h_sale_lines u ?sid (sb_items b) ?k) ?d1 = 0"
    by (simp add: h_post_sales_def)
  from dist have dist1: "distinct (map p_id (products ?d1))" by simp
  from h_sale_lines_run [OF dist1 ref1] obtain d2 where
    d2: "run_prog e (h_sale_lines u ?sid (sb_items b) ?k) ?d1 = run_prog e ?k d2" "refused e ?k d2 = 0"
      "users d2 = users ?d1" "sales d2 = sales ?d1" "audit_logs d2 = audit_logs ?d1"
      "\<exists>rows. sale_items d2 = sale_items ?d1 @ rows \<and> item_rows ?sid (sb_items b) rows"
      "\<exists>rows. stock_movements d2 = stock_movements ?d1 @ rows \<and> movement_rows u ?sid (sb_items b) rows"
      "products d2 = less_sold (sb_items b) (products ?d1)"
    by blast
  from d2(2) have acc2: "\<not> rejects e d2 ?a"
    by (auto simp: h_logAudit_def split: if_splits)
  have run: "run_prog e (h_post_sales u b) d = (Response 200 (Id ?sid), apply_stmt (now e) ?a d2)"
    using acc acc2 d2(1) by (simp add: h_post_sales_def h_logAudit_def)
  have "sale_recorded e u b ?sid d (apply_stmt (now e) ?a d2)"
    unfolding sale_recorded_def using d2(3-8) by simp
  with run show ?thesis by blast
qed

lemma dh_post_sales_ok:
  assumes dist: "distinct (map p_id (products d))"
    and ref: "refused e (dh_post_sales u b) d = 0"
  shows "\<exists>saleId d'. run_prog e (dh_post_sales u b) d = (Response 200 (Id saleId), d') \<and>
           sale_recorded e u b saleId d d'"
proof -
  let ?s = "Insert_sale (c_id u) (sb_total b) (sb_payment_method b)"
  let ?d1 = "apply_stmt (now e) ?s d"
  let ?sid = "new_rowid d ?s"
  let ?a = "Insert_audit_log (c_id u) ''SALE'' ''SALES'' (sale_details ?sid (sb_total b))"
  let ?k = "h_logAudit (c_id u) ''SALE'' ''SALES'' (sale_details ?sid (sb_total b))
              (Return (Response 200 (Id ?sid)))"
  from ref have acc: "\<not> rejects e d ?s"
    by (auto simp: dh_post_sales_def split: if_splits)
  with ref have ref1: "refused e (dh_sale_lines u ?sid (sb_items b) ?k) ?d1 = 0"
    by (simp add: dh_post_sales_def)
  from dist have dist1: "distinct (map p_id (products ?d1))" by simp
  from dh_sale_lines_run [OF dist1 ref1] obtain d2 where
    d2: "run_prog e (dh_sale_lines u ?sid (sb_items b) ?k) ?d1 = run_prog e ?k d2" "refused e ?k d2 = 0"
      "users d2 = users ?d1" "sales d2 = sales ?d1" "audit_logs d2 = audit_logs ?d1"
      "\<exists>rows. sale_items d2 = sale_items ?d1 @ rows \<and> item_rows ?sid (sb_items b) rows"
      "\<exists>rows. stock_movements d2 = stock_movements ?d1 @ rows \<and> movement_rows u ?sid (sb_items b) rows"
      "products d2 = less_sold (sb_items b) (products ?d1)"
    by blast
  from d2(2) have acc2: "\<not> rejects e d2 ?a"
    by (auto simp: h_logAudit_def split: if_splits)
  have run: "run_prog e (dh_post_sales u b) d = (Response 200 (Id ?sid), apply_stmt (now e) ?a d2)"
    using acc acc2 d2(1) by (simp add: dh_post_sales_def h_logAudit_def)
  have "sale_recorded e u b ?sid d (apply_stmt (now e) ?a d2)"
    unfolding sale_recorded_def using d2(3-8) by simp
  with run show ?thesis by blast
qed

text \<open>
  Claim C1. A sale recorded with N line items leaves exactly one new sale, N new sale items,
  N new movements of type \<^verbatim>\<open>OUT\<close> and one new audit entry, and every product's stock
  goes down by the quantity its line items take (by that line item's quantity when one line
  names the product). On the embedded paths (parts 000 and 001) this holds whenever the
  answer is the success answer; on part 001 the audit entry is written after the transaction,
  so the store must accept it. On the hosted paths (parts 002 and 001) it holds when the
  store refuses no statement of the request and product ids are unique.
\<close>

theorem sale_recording_rows:
  "(post_sales e u b d = (Response 200 bd, d') \<longrightarrow>
      (\<exists>saleId. bd = Id saleId \<and> sale_recorded e u b saleId d d')) \<and>
   (d_post_sales e u b d = (Response 200 bd, d') \<longrightarrow>
      (\<exists>saleId. bd = Id saleId \<and>
         (\<not> rejects e (snd (transaction (d_sale_transaction e u b) d))
              (Insert_audit_log (c_id u) ''SALE'' ''SALES'' (sale_details saleId (sb_total b))) \<longrightarrow>
          sale_recorded e u b saleId d d'))) \<and>
   (distinct (map p_id (products d)) \<and> refused e (h_post_sales u b) d = 0 \<longrightarrow>
      (\<exists>saleId d2. run_prog e (h_post_sales u b) d = (Response 200 (Id saleId), d2) \<and>
         sale_recorded e u b saleId d d2)) \<and>
   (distinct (map p_id (products d)) \<and> refused e (dh_post_sales u b) d = 0 \<longrightarrow>
      (\<exists>saleId d2. run_prog e (dh_post_sales u b) d = (Response 200 (Id saleId), d2) \<and>
         sale_recorded e u b saleId d d2))"
proof (intro conjI impI)
  assume "post_sales e u b d = (Response 200 bd, d')"
  then show "\<exists>saleId. bd = Id saleId \<and> sale_recorded e u b saleId d d'"
    by (rule post_sales_ok)
next
  assume a: "d_post_sales e u b d = (Response 200 bd, d')"
  then obtain saleId where bd: "bd = Id saleId"
    by (auto simp: d_post_sales_def split: sum.splits prod.splits)
  with a have "\<not> rejects e (snd (transaction (d_sale_transaction e u b) d))
              (Insert_audit_log (c_id u) ''SALE'' ''SALES'' (sale_details saleId (sb_total b))) \<longrightarrow>
          sale_recorded e u b saleId d d'"
    using d_post_sales_ok [of e u b d saleId d'] by blast
  with bd show "\<exists>saleId. bd = Id saleId \<and>
         (\<not> rejects e (snd (transaction (d_sale_transaction e u b) d))
              (Insert_audit_log (c_id u) ''SALE'' ''SALES'' (sale_details saleId (sb_total b))) \<longrightarrow>
          sale_recorded e u b saleId d d')"
    by blast
next
  assume "distinct (map p_id (products d)) \<and> refused e (h_post_sales u b) d = 0"
  then show "\<exists>saleId d2. run_prog e (h_post_sales u b) d = (Response 200 (Id saleId), d2) \<and>
         sale_recorded e u b saleId d d2"
    using h_post_sales_ok [of d e u b] by simp
next
  assume "distinct (map p_id (products d)) \<and> refused e (dh_post_sales u b) d = 0"
  then show "\<exists>saleId d2. run_prog e (dh_post_sales u b) d = (Response 200 (Id saleId), d2) \<and>
         sale_recorded e u b saleId d d2"
    using dh_post_sales_ok [of d e u b] by simp
qed

theorem sale_recording_rows_witness:
  "fst (post_sales example_env admin three_bags store) = Response 200 (Id 1) \<and>
   sale_recorded example_env admin three_bags 1 store
     (snd (post_sales example_env admin three_bags store)) \<and>
   fst (d_post_sales example_env admin three_bags store) = Response 200 (Id 1) \<and>
   \<not> rejects example_env (snd (transaction (d_sale_transaction example_env admin three_bags) store))
       (Insert_audit_log (c_id admin) ''SALE'' ''SALES'' (sale_details 1 (sb_total three_bags))) \<and>
   sale_recorded example_env admin three_bags 1 store
     (snd (d_post_sales example_env admin three_bags store)) \<and>
   distinct (map p_id (products store)) \<and>
   refused example_env (h_post_sales admin three_bags) store = 0 \<and>
   refused example_env (dh_post_sales admin three_bags) store = 0 \<and>
   (\<exists>saleId d2. run_prog example_env (h_post_sales admin three_bags) store =
        (Response 200 (Id saleId), d2) \<and>
      sale_recorded example_env admin three_bags saleId store d2) \<and>
   (\<exists>saleId d2. run_prog example_env (dh_post_sales admin three_bags) store =
        (Response 200 (Id saleId), d2) \<and>
      sale_recorded example_env admin three_bags saleId store d2) \<and>
   map p_stock_quantity (products (snd (post_sales example_env admin three_bags store))) =
     [97, 50, 30, 10, 15]"
proof -
  have f0: "fst (post_sales example_env admin three_bags store) = Response 200 (Id 1)"
    by (simp add: example_defs handler_defs)
  have f1: "fst (d_post_sales example_env admin three_bags store) = Response 200 (Id 1)"
    by (simp add: example_defs handler_defs)
  have r0: "post_sales example_env admin three_bags store =
      (Response 200 (Id 1), snd (post_sales example_env admin three_bags store))"
    using f0 by (simp add: prod_eq_iff)
  have r1: "d_post_sales example_env admin three_bags store =
      (Response 200 (Id 1), snd (d_post_sales example_env admin three_bags store))"
    using f1 by (simp add: prod_eq_iff)
  have acc: "\<not> rejects example_env
       (snd (transaction (d_sale_transaction example_env admin three_bags) store))
       (Insert_audit_log (c_id admin) ''SALE'' ''SALES'' (sale_details 1 (sb_total three_bags)))"
    by (simp add: example_defs handler_defs)
  have dist: "distinct (map p_id (products store))"
    by (simp add: example_defs)
  have h0: "refused example_env (h_post_sales admin three_bags) store = 0"
    by (simp add: example_defs handler_defs)
  have h1: "refused example_env (dh_post_sales admin three_bags) store = 0"
    by (simp add: example_defs handler_defs)
  have st: "map p_stock_quantity (products (snd (post_sales example_env admin three_bags store))) =
     [97, 50, 30, 10, 15]"
    by (simp add: example_defs handler_defs)
  note c = sale_recording_rows [of example_env admin three_bags store "Id 1"]
  have a0: "sale_recorded example_env admin three_bags 1 store
     (snd (post_sales example_env admin three_bags store))"
    using c [of "snd (post_sales example_env admin three_bags store)"] r0 by blast
  have a1: "sale_recorded example_env admin three_bags 1 store
     (snd (d_post_sales example_env admin three_bags store))"
    using c [of "snd (d_post_sales example_env admin three_bags store)"] r1 acc by blast
  have e2: "\<exists>saleId d2. run_prog example_env (h_post_sales admin three_bags) store =
        (Response 200 (Id saleId), d2) \<and>
      sale_recorded example_env admin three_bags saleId store d2"
    using c [of store] dist h0 by blast
  have e3: "\<exists>saleId d2. run_prog example_env (dh_post_sales admin three_bags) store =
        (Response 200 (Id saleId), d2) \<and>
      sale_recorded example_env admin three_bags saleId store d2"
    using c [of store] dist h1 by blast
  from f0 a0 f1 acc a1 dist h0 h1 e2 e3 st show ?thesis
    by (intro conjI)
qed

subsection \<open>No floor on the stock\<close>

lemma fold_max_ge: "a \<le> fold max ids (a::nat)"
proof (induction ids arbitrary: a)
  case Nil
  show ?case by simp
next
  case (Cons x ids)
  have "a \<le> max x a" by simp
  also have "max x a \<le> fold max ids (max x a)" by (rule Cons.IH)
  finally show ?case by simp
qed

lemma fold_max_upper: "x \<in> set ids \<Longrightarrow> x \<le> fold max ids (a::nat)"
proof (induction ids arbitrary: a)
  case Nil
  then show ?case by simp
next
  case (Cons y ids)
  show ?case
  proof (cases "x = y")
    case True
    have "x \<le> max y a" using True by simp
    also have "max y a \<le> fold max ids (max y a)" by (rule fold_max_ge)
    finally show ?thesis by simp
  next
    case False
    with Cons.prems have "x \<in> set ids" by simp
    then show ?thesis by (simp add: Cons.IH)
  qed
qed

lemma next_id_fresh: "next_id ids \<notin> set ids"
proof
  assume "next_id ids \<in> set ids"
  then have "next_id ids \<le> fold max ids 0" by (rule fold_max_upper)
  then show False by (simp add: next_id_def)
qed

lemma sale_lines_accepted:
  assumes "rejects e = schema_rejects fk"
  shows "saleId \<in> set (map s_id (sales d)) \<Longrightarrow> c_id u \<in> set (map u_id (users d)) \<Longrightarrow>
         \<forall>it\<in>set its. i_id it \<in> set (map p_id (products d)) \<Longrightarrow>
         \<exists>d'. sale_lines e u saleId its d = Inr d'"
proof (induction its arbitrary: d)
  case Nil
  then show ?case by simp
next
  case (Cons it its)
  let ?d1 = "apply_stmt (now e) (Insert_sale_item saleId (i_id it) (i_quantity it) (i_price it) None) d"
  let ?d2 = "apply_stmt (now e) (Decrement_stock (i_quantity it) (i_id it)) ?d1"
  let ?d3 = "apply_stmt (now e) (Insert_stock_movement (i_id it) (c_id u) ''OUT'' (i_quantity it) (sale_reason saleId)) ?d2"
  have "saleId \<in> set (map s_id (sales ?d3))" "c_id u \<in> set (map u_id (users ?d3))"
    "\<forall>it\<in>set its. i_id it \<in> set (map p_id (products ?d3))"
    using Cons.prems by simp_all
  from Cons.IH [OF this] obtain d' where "sale_lines e u saleId its ?d3 = Inr d'" ..
  moreover have "\<not> schema_rejects fk d (Insert_sale_item saleId (i_id it) (i_quantity it) (i_price it) None)"
    using Cons.prems by (simp add: schema_rejects_def)
  moreover have "\<not> schema_rejects fk ?d1 (Decrement_stock (i_quantity it) (i_id it))"
    by (simp add: schema_rejects_def)
  moreover have "\<not> schema_rejects fk ?d2 (Insert_stock_movement (i_id it) (c_id u) ''OUT'' (i_quantity it) (sale_reason saleId))"
    using Cons.prems by (simp add: schema_rejects_def)
  ultimately show ?case
    using assms by (simp add: run_stmt_def)
qed

text \<open>
  Claim C9. Recording a sale enforces no lower bound on stock. On part 000, with a store that
  enforces the constraints of the schema (foreign keys or not), a sale by a known user of
  known products is accepted whatever the stocks are, each stock goes down by the quantity
  sold, and a stock smaller than the quantity sold becomes negative.
\<close>

theorem no_stock_floor:
  assumes eng: "rejects e = schema_rejects fk"
    and usr: "c_id u \<in> set (map u_id (users d))"
    and prods: "\<forall>it\<in>set (sb_items b). i_id it \<in> set (map p_id (products d))"
  shows "\<exists>saleId d'. post_sales e u b d = (Response 200 (Id saleId), d') \<and>
           products d' = less_sold (sb_items b) (products d) \<and>
           (\<forall>k<length (products d).
              p_stock_quantity (products d' ! k) =
                p_stock_quantity (products d ! k) - sold (sb_items b) (p_id (products d ! k)) \<and>
              (p_stock_quantity (products d ! k) < sold (sb_items b) (p_id (products d ! k)) \<longrightarrow>
                 p_stock_quantity (products d' ! k) < 0))"
proof -
  let ?s = "Insert_sale (c_id u) (sb_total b) (sb_payment_method b)"
  let ?d1 = "apply_stmt (now e) ?s d"
  let ?sid = "new_rowid d ?s"
  have acc: "\<not> rejects e d ?s"
    using eng usr by (simp add: schema_rejects_def)
  have "?sid \<in> set (map s_id (sales ?d1))" "c_id u \<in> set (map u_id (users ?d1))"
    "\<forall>it\<in>set (sb_items b). i_id it \<in> set (map p_id (products ?d1))"
    using usr prods by simp_all
  from sale_lines_accepted [OF eng this] obtain d2 where
    lines: "sale_lines e u ?sid (sb_items b) ?d1 = Inr d2" ..
  from sale_lines_effect [OF lines] have u2: "users d2 = users d"
    by simp
  let ?a = "Insert_audit_log (c_id u) ''SALE'' ''SALES'' (sale_details ?sid (sb_total b))"
  have acc2: "\<not> rejects e d2 ?a"
    using eng usr u2 by (simp add: schema_rejects_def)
  have tr: "sale_transaction e u b d = Inr (?sid, apply_stmt (now e) ?a d2)"
    using acc lines acc2 by (simp add: sale_transaction_def run_stmt_def logAudit_def)
  then have ps: "post_sales e u b d = (Response 200 (Id ?sid), apply_stmt (now e) ?a d2)"
    by (simp add: post_sales_def transaction_def)
  from sale_transaction_effect [OF tr]
  have pr: "products (apply_stmt (now e) ?a d2) = less_sold (sb_items b) (products d)"
    by (simp add: sale_recorded_def)
  have "\<forall>k<length (products d).
              p_stock_quantity (less_sold (sb_items b) (products d) ! k) =
                p_stock_quantity (products d ! k) - sold (sb_items b) (p_id (products d ! k)) \<and>
              (p_stock_quantity (products d ! k) < sold (sb_items b) (p_id (products d ! k)) \<longrightarrow>
                 p_stock_quantity (less_sold (sb_items b) (products d) ! k) < 0)"
    by (simp add: less_sold_def)
  with ps pr show ?thesis by simp
qed

theorem no_stock_floor_witness:
  "rejects example_env = schema_rejects True \<and>
   c_id admin \<in> set (map u_id (users store)) \<and>
   (\<exists>saleId d'. post_sales example_env admin all_the_cement store = (Response 200 (Id saleId), d') \<and>
      products d' = less_sold (sb_items all_the_cement) (products store) \<and>
      p_stock_quantity (products store ! 0) = 100 \<and>
      sold (sb_items all_the_cement) (p_id (products store ! 0)) = 150 \<and>
      p_stock_quantity (products d' ! 0) = - 50)"
proof -
  have eng: "rejects example_env = schema_rejects True"
    by (simp add: example_defs)
  have usr: "c_id admin \<in> set (map u_id (users store))"
    by (simp add: example_defs)
  have prods: "\<forall>it\<in>set (sb_items all_the_cement). i_id it \<in> set (map p_id (products store))"
    by (simp add: example_defs all_the_cement_def)
  have s0: "p_stock_quantity (products store ! 0) = 100"
    by (simp add: example_defs)
  have s1: "sold (sb_items all_the_cement) (p_id (products store ! 0)) = 150"
    by (simp add: example_defs all_the_cement_def sold_def)
  have len: "0 < length (products store)"
    by (simp add: example_defs)
  from no_stock_floor [OF eng usr prods] obtain saleId d' where
    r: "post_sales example_env admin all_the_cement store = (Response 200 (Id saleId), d')"
       "products d' = less_sold (sb_items all_the_cement) (products store)"
       "\<forall>k<length (products store).
              p_stock_quantity (products d' ! k) =
                p_stock_quantity (products store ! k) - sold (sb_items all_the_cement) (p_id (products store ! k)) \<and>
              (p_stock_quantity (products store ! k) < sold (sb_items all_the_cement) (p_id (products store ! k)) \<longrightarrow>
                 p_stock_quantity (products d' ! k) < 0)"
    by blast
  from r(3) len s0 s1 have "p_stock_quantity (products d' ! 0) = - 50"
    by simp
  with r(1,2) s0 s1 eng usr show ?thesis by blast
qed

subsection \<open>When a statement fails; sales in flight together\<close>

text \<open>
  Claim C2, at an input where the hosted paths break it. The sale names the first product
  and a product the store does not hold, so the store refuses two statements (the second
  sale item and its movement). Parts 002 and 001 (hosted path) still answer with success
  and leave the sale, the first item, its movement and the lowered stock behind; part 000
  answers 500 and leaves the store as it was.
\<close>

theorem hosted_sale_not_atomic:
  "refused example_env (h_post_sales admin bags_and_ghost) store = 2 \<and>
   fst (run_prog example_env (h_post_sales admin bags_and_ghost) store) = Response 200 (Id 1) \<and>
   map s_total (sales (snd (run_prog example_env (h_post_sales admin bags_and_ghost) store))) = [108.70] \<and>
   map si_product_id (sale_items (snd (run_prog example_env (h_post_sales admin bags_and_ghost) store))) = [1] \<and>
   map sm_product_id (stock_movements (snd (run_prog example_env (h_post_sales admin bags_and_ghost) store))) = [1] \<and>
   map p_stock_quantity (products (snd (run_prog example_env (h_post_sales admin bags_and_ghost) store)))
     = [97, 50, 30, 10, 15] \<and>
   refused example_env (dh_post_sales admin bags_and_ghost) store = 2 \<and>
   fst (run_prog example_env (dh_post_sales admin bags_and_ghost) store) = Response 200 (Id 1) \<and>
   map p_stock_quantity (products (snd (run_prog example_env (dh_post_sales admin bags_and_ghost) store)))
     = [97, 50, 30, 10, 15] \<and>
   post_sales example_env admin bags_and_ghost store =
     (Response 500 (Message msg_erro_processar_venda), store)"
  by (simp add: example_defs handler_defs)


text \<open>
  Claim C5, at an input where the hosted paths break it: two sales of five units against a
  stock of eight, each handler reading the stock before the other writes. Both are recorded
  and the stock ends at 3, not at 8 - 10. On part 000 the two sales, one after the other,
  leave -2.
\<close>

theorem hosted_lost_update:
  "map p_stock_quantity (filter (\<lambda>p. p_id p = 1) (products store8)) = [8] \<and>
   (case interleave example_env [0, 0, 0, 1, 1, 1, 0, 0, 0, 1, 1, 1]
           [h_post_sales admin five_units, h_post_sales admin five_units] store8 of
      (ps, d') \<Rightarrow>
        ps = [Return (Response 200 (Id 1)), Return (Response 200 (Id 2))] \<and>
        map si_quantity (sale_items d') = [5, 5] \<and>
        map sm_quantity (stock_movements d') = [5, 5] \<and>
        map p_stock_quantity (filter (\<lambda>p. p_id p = 1) (products d')) = [3]) \<and>
   (case interleave example_env [0, 0, 0, 1, 1, 1, 0, 0, 0, 1, 1, 1]
           [dh_post_sales admin five_units, dh_post_sales admin five_units] store8 of
      (ps, d') \<Rightarrow>
        ps = [Return (Response 200 (Id 1)), Return (Response 200 (Id 2))] \<and>
        map si_quantity (sale_items d') = [5, 5] \<and>
        map p_stock_quantity (filter (\<lambda>p. p_id p = 1) (products d')) = [3]) \<and>
   map p_stock_quantity (filter (\<lambda>p. p_id p = 1)
      (products (snd (post_sales example_env admin five_units
                        (snd (post_sales example_env admin five_units store8)))))) = [- 2]"
  by (simp add: example_defs handler_defs store8_def five_units_def)

subsection \<open>Critical stock; editing an unknown product\<close>

lemma pg_integer_min_stock: "pg_integer ''min_stock'' = None"
  by (simp add: pg_integer_def is_digit_def)

lemma count_lte_min_stock: "count_lte_stock_quantity ''min_stock'' ps = None"
  by (simp add: count_lte_stock_quantity_def pg_integer_min_stock)

text \<open>
  Claim C4, where the hosted paths break it. Parts 002 and 001 (hosted path) compare
  \<^verbatim>\<open>stock_quantity\<close> with the text \<^verbatim>\<open>min_stock\<close>, which is no integer: the query
  fails, the count is \<^verbatim>\<open>null\<close> and the dashboard shows 0 for every store and every
  range. The store with eight bags has one product at or under its minimum; part 000 counts
  it.
\<close>

theorem hosted_critical_stock_zero:
  "(\<exists>a b c ch. run_prog e (h_get_dashboard_stats e q) d = (Response 200 (Stats a b c 0 ch), d)) \<and>
   (\<exists>a b c ch. run_prog e (dh_get_dashboard_stats e q) d = (Response 200 (Stats a b c 0 ch), d)) \<and>
   length (filter (\<lambda>p. p_stock_quantity p \<le> p_min_stock p) (products store8)) = 1 \<and>
   (\<exists>a b c ch. get_dashboard_stats example_env q store8 = Response 200 (Stats a b c 1 ch))"
proof -
  have "\<exists>a b c ch. run_prog e (h_get_dashboard_stats e q) d = (Response 200 (Stats a b c 0 ch), d)"
    by (simp add: h_get_dashboard_stats_def Let_def count_lte_min_stock)
  moreover have "\<exists>a b c ch. run_prog e (dh_get_dashboard_stats e q) d = (Response 200 (Stats a b c 0 ch), d)"
    by (simp add: dh_get_dashboard_stats_def Let_def count_lte_min_stock)
  moreover have c: "length (filter (\<lambda>p. p_stock_quantity p \<le> p_min_stock p) (products store8)) = 1"
    by (simp add: store8_def example_defs update_where_id_def)
  moreover have "\<exists>a b c ch. get_dashboard_stats example_env q store8 = Response 200 (Stats a b c 1 ch)"
    using c by (simp add: get_dashboard_stats_def Let_def criticalStock_def)
  ultimately show ?thesis by blast
qed

lemma update_where_id_unknown:
  "i \<notin> set (map p_id ps) \<Longrightarrow> update_where_id i f ps = ps"
  by (rule update_where_id_absent) (auto simp: filter_empty_conv)

lemma put_products_unknown:
  assumes eng: "rejects e = schema_rejects fk"
    and usr: "c_id u \<in> set (map u_id (users d))"
    and role: "c_role u \<noteq> ''Vendedor''"
    and unknown: "\<forall>n. sqlite_id e i = Some n \<longrightarrow> n \<notin> set (map p_id (products d))"
  shows "put_products e u i b d =
           (Response 200 Success,
            d\<lparr>audit_logs := audit_logs d @
              [\<lparr>al_id = next_id (map al_id (audit_logs d)), al_user_id = c_id u,
                al_action = ''UPDATE'', al_entity = ''PRODUCT'',
                al_details = product_details ''Produto atualizado: '' b, al_created_at = now e\<rparr>]\<rparr>)"
proof -
  let ?upd = "\<lambda>n. Update_product n (b_code b) (b_name b) (b_category b) (b_price b)
                (b_cost_price b) None (b_min_stock b) (b_unit b)"
  have rs: "(case sqlite_id e i of None \<Rightarrow> Inr (0, d) | Some n \<Rightarrow> run_stmt e (?upd n) d) = Inr (0, d)"
  proof (cases "sqlite_id e i")
    case None
    then show ?thesis by simp
  next
    case (Some n)
    with unknown have n: "n \<notin> set (map p_id (products d))" by simp
    then have "\<not> schema_rejects fk d (?upd n)"
      by (simp add: schema_rejects_def)
    moreover from n have "apply_stmt (now e) (?upd n) d = d"
      by (simp add: update_where_id_unknown)
    ultimately show ?thesis
      using eng Some by (simp add: run_stmt_def del: apply_stmt.simps)
  qed
  have aud: "\<not> schema_rejects fk d (Insert_audit_log (c_id u) ''UPDATE'' ''PRODUCT''
                (product_details ''Produto atualizado: '' b))"
    using usr by (simp add: schema_rejects_def)
  show ?thesis
    using role eng aud by (simp add: put_products_def rs logAudit_def run_stmt_def)
qed

lemma h_put_products_unknown:
  assumes eng: "rejects e = schema_rejects fk"
    and usr: "c_id u \<in> set (map u_id (users d))"
    and role: "c_role u \<noteq> ''Vendedor''"
    and known: "hosted_id e i = Some m"
    and unknown: "m \<notin> set (map p_id (products d))"
  shows "run_prog e (h_put_products e u i b) d =
           (Response 200 Success,
            d\<lparr>audit_logs := audit_logs d @
              [\<lparr>al_id = next_id (map al_id (audit_logs d)), al_user_id = c_id u,
                al_action = ''UPDATE'', al_entity = ''PRODUCT'',
                al_details = product_details ''Produto atualizado: '' b, al_created_at = now e\<rparr>]\<rparr>)"
proof -
  let ?upd = "Update_product m (b_code b) (b_name b) (b_category b) (b_price b)
                (b_cost_price b) (Some (stock_or_0 b)) (b_min_stock b) (b_unit b)"
  have hw: "\<not> rejects e d ?upd"
    using eng unknown by (simp add: schema_rejects_def)
  have same: "apply_stmt (now e) ?upd d = d"
    using unknown by (simp add: update_where_id_unknown)
  have ha: "\<not> rejects e d (Insert_audit_log (c_id u) ''UPDATE'' ''PRODUCT''
                (product_details ''Produto atualizado: '' b))"
    using eng usr by (simp add: schema_rejects_def)
  show ?thesis
    using role known hw ha same
    by (simp add: h_put_products_def h_logAudit_def del: apply_stmt.simps) simp
qed

text \<open>
  Claim C10, as the servers have it. A request with a verified token of a role other than
  \<^verbatim>\<open>Vendedor\<close>, for a user the store knows, to \<^verbatim>\<open>PUT /api/products/:id\<close> with an
  id no product has: the answer is \<^verbatim>\<open>{ success: true }\<close> and the store changes only
  by one new audit entry; the products are as they were. On part 000 this holds for every
  text of the id; on part 002 when the store reads the text as a key, and when it does not
  the answer there is 400 and nothing is written. The store enforces the constraints of the
  schema.
\<close>

theorem put_unknown_product:
  assumes eng: "rejects e = schema_rejects fk"
    and auth: "authenticateToken e (authorization r) = Inr u"
    and usr: "c_id u \<in> set (map u_id (users d))"
    and rt: "route r = Put_products i b"
    and role: "c_role u \<noteq> ''Vendedor''"
  shows "((\<forall>n. sqlite_id e i = Some n \<longrightarrow> n \<notin> set (map p_id (products d))) \<longrightarrow>
            (\<exists>l. al_user_id l = c_id u \<and> al_action l = ''UPDATE'' \<and> al_entity l = ''PRODUCT'' \<and>
               api e r d = (Response 200 Success, d\<lparr>audit_logs := audit_logs d @ [l]\<rparr>))) \<and>
         (hosted_id e i = Some m \<and> m \<notin> set (map p_id (products d)) \<longrightarrow>
            (\<exists>l. al_user_id l = c_id u \<and> al_action l = ''UPDATE'' \<and> al_entity l = ''PRODUCT'' \<and>
               run_prog e (h_api e r) d =
                 (Response 200 Success, d\<lparr>audit_logs := audit_logs d @ [l]\<rparr>))) \<and>
         (hosted_id e i = None \<longrightarrow>
            run_prog e (h_api e r) d = (Response 400 (Message msg_erro_atualizar_produto), d))"
proof (intro conjI impI)
  let ?l = "\<lparr>al_id = next_id (map al_id (audit_logs d)), al_user_id = c_id u, al_action = ''UPDATE'',
             al_entity = ''PRODUCT'', al_details = product_details ''Produto atualizado: '' b,
             al_created_at = now e\<rparr>"
  {
    assume "\<forall>n. sqlite_id e i = Some n \<longrightarrow> n \<notin> set (map p_id (products d))"
    from put_products_unknown [OF eng usr role this]
    have "api e r d = (Response 200 Success, d\<lparr>audit_logs := audit_logs d @ [?l]\<rparr>)"
      using auth rt by (simp add: api_def)
    then show "\<exists>l. al_user_id l = c_id u \<and> al_action l = ''UPDATE'' \<and> al_entity l = ''PRODUCT'' \<and>
               api e r d = (Response 200 Success, d\<lparr>audit_logs := audit_logs d @ [l]\<rparr>)"
      by (intro exI [of _ ?l]) simp
  next
    assume "hosted_id e i = Some m \<and> m \<notin> set (map p_id (products d))"
    then have "run_prog e (h_put_products e u i b) d =
        (Response 200 Success, d\<lparr>audit_logs := audit_logs d @ [?l]\<rparr>)"
      using h_put_products_unknown [OF eng usr role, of i m b] by simp
    then have "run_prog e (h_api e r) d = (Response 200 Success, d\<lparr>audit_logs := audit_logs d @ [?l]\<rparr>)"
      using auth rt by (simp add: h_api_def)
    then show "\<exists>l. al_user_id l = c_id u \<and> al_action l = ''UPDATE'' \<and> al_entity l = ''PRODUCT'' \<and>
               run_prog e (h_api e r) d =
                 (Response 200 Success, d\<lparr>audit_logs := audit_logs d @ [l]\<rparr>)"
      by (intro exI [of _ ?l]) simp
  next
    assume "hosted_id e i = None"
    then show "run_prog e (h_api e r) d = (Response 400 (Message msg_erro_atualizar_produto), d)"
      using auth rt role by (simp add: h_api_def h_put_products_def)
  }
qed

lemma auth_owner: "authenticateToken example_env (Some ''Bearer owner'') = Inr admin"
  by (simp add: authenticateToken_def bearer_token_def example_defs)

lemma decimal_99: "decimal ''99'' = Some 99"
  by (simp add: decimal_def is_digit_def nat_of_digits_def)

theorem put_unknown_product_witness:
  "rejects example_env = schema_rejects True \<and>
   authenticateToken example_env (authorization \<lparr>authorization = Some ''Bearer owner'',
       route = Put_products ''99'' dearer_cement\<rparr>) = Inr admin \<and>
   c_id admin \<in> set (map u_id (users store)) \<and> c_role admin \<noteq> ''Vendedor'' \<and>
   sqlite_id example_env ''99'' = Some 99 \<and> hosted_id example_env ''99'' = Some 99 \<and>
   99 \<notin> set (map p_id (products store)) \<and>
   (\<exists>l. al_user_id l = c_id admin \<and> al_action l = ''UPDATE'' \<and> al_entity l = ''PRODUCT'' \<and>
      api example_env \<lparr>authorization = Some ''Bearer owner'', route = Put_products ''99'' dearer_cement\<rparr>
        store = (Response 200 Success, store\<lparr>audit_logs := audit_logs store @ [l]\<rparr>)) \<and>
   (\<exists>l. al_user_id l = c_id admin \<and> al_action l = ''UPDATE'' \<and> al_entity l = ''PRODUCT'' \<and>
      run_prog example_env
        (h_api example_env \<lparr>authorization = Some ''Bearer owner'', route = Put_products ''99'' dearer_cement\<rparr>)
        store = (Response 200 Success, store\<lparr>audit_logs := audit_logs store @ [l]\<rparr>))"
proof -
  let ?r = "\<lparr>authorization = Some ''Bearer owner'', route = Put_products ''99'' dearer_cement\<rparr>"
  have eng: "rejects example_env = schema_rejects True"
    by (simp add: example_defs)
  have auth: "authenticateToken example_env (authorization ?r) = Inr admin"
    by (simp add: auth_owner)
  have usr: "c_id admin \<in> set (map u_id (users store))"
    by (simp add: example_defs)
  have role: "c_role admin \<noteq> ''Vendedor''"
    by (simp add: example_defs)
  have ids: "sqlite_id example_env ''99'' = Some 99" "hosted_id example_env ''99'' = Some 99"
    by (simp_all add: example_env_def decimal_99)
  have unknown: "99 \<notin> set (map p_id (products store))"
    by (simp add: example_defs)
  have rt: "route ?r = Put_products ''99'' dearer_cement"
    by simp
  note c = put_unknown_product [OF eng auth usr rt role, of 99]
  have a: "\<exists>l. al_user_id l = c_id admin \<and> al_action l = ''UPDATE'' \<and> al_entity l = ''PRODUCT'' \<and>
      api example_env ?r store = (Response 200 Success, store\<lparr>audit_logs := audit_logs store @ [l]\<rparr>)"
    using c ids unknown by simp
  have h: "\<exists>l. al_user_id l = c_id admin \<and> al_action l = ''UPDATE'' \<and> al_entity l = ''PRODUCT'' \<and>
      run_prog example_env (h_api example_env ?r) store =
        (Response 200 Success, store\<lparr>audit_logs := audit_logs store @ [l]\<rparr>)"
    using c ids unknown by simp
  from eng auth usr role ids unknown a h show ?thesis
    by (intro conjI)
qed

text \<open>
  Claim C10 as stated fails on part 002: the text \<^verbatim>\<open>abc\<close> is the id of no product, and
  the hosted store, which cannot read it as a key, fails the query; the answer is 400 and no
  audit entry is written. Part 000 answers with success.
\<close>

theorem put_unreadable_id:
  "authenticateToken example_env (Some ''Bearer owner'') = Inr admin \<and>
   c_role admin \<noteq> ''Vendedor'' \<and> hosted_id example_env ''abc'' = None \<and>
   run_prog example_env
     (h_api example_env \<lparr>authorization = Some ''Bearer owner'', route = Put_products ''abc'' dearer_cement\<rparr>)
     store = (Response 400 (Message msg_erro_atualizar_produto), store) \<and>
   fst (api example_env \<lparr>authorization = Some ''Bearer owner'', route = Put_products ''abc'' dearer_cement\<rparr>
     store) = Response 200 Success"
proof -
  let ?r = "\<lparr>authorization = Some ''Bearer owner'', route = Put_products ''abc'' dearer_cement\<rparr>"
  have role: "c_role admin \<noteq> ''Vendedor''"
    by (simp add: admin_def)
  have ids: "hosted_id example_env ''abc'' = None" "sqlite_id example_env ''abc'' = None"
    by (simp_all add: example_env_def decimal_def is_digit_def)
  have h: "run_prog example_env (h_api example_env ?r) store =
      (Response 400 (Message msg_erro_atualizar_produto), store)"
    using role ids by (simp add: h_api_def auth_owner h_put_products_def)
  have acc: "\<not> rejects example_env store (Insert_audit_log (c_id admin) ''UPDATE'' ''PRODUCT''
      (product_details ''Produto atualizado: '' dearer_cement))"
    by (simp add: example_defs schema_rejects_def)
  have a: "fst (api example_env ?r store) = Response 200 Success"
    using role ids acc by (simp add: api_def auth_owner put_products_def logAudit_def run_stmt_def)
  from auth_owner role ids(1) h a show ?thesis
    by (intro conjI)
qed

subsection \<open>The access gate\<close>

lemma messages_differ:
  "msg_token_invalido \<noteq> msg_sem_permissao" "msg_token_invalido \<noteq> msg_acesso_negado"
  "msg_token_invalido \<noteq> msg_acesso_restrito"
  by (simp_all add: msg_token_invalido_def msg_sem_permissao_def msg_acesso_negado_def
      msg_acesso_restrito_def a_acute_def a_tilde_def)

lemma api_no_token:
  assumes "\<forall>un pw. route r \<noteq> Post_auth_login un pw"
    and "bearer_token (authorization r) = None \<or> bearer_token (authorization r) = Some []"
  shows "api e r d = (Response 401 (Message msg_acesso_negado), d) \<and>
         run_prog e (h_api e r) d = (Response 401 (Message msg_acesso_negado), d)"
  using assms by (auto simp: api_def h_api_def authenticateToken_def split: route.splits)

lemma api_bad_token:
  assumes "\<forall>un pw. route r \<noteq> Post_auth_login un pw"
    and "bearer_token (authorization r) = Some t" "t \<noteq> []" "jwt_verify e t = None"
  shows "api e r d = (Response 403 (Message msg_token_invalido), d) \<and>
         run_prog e (h_api e r) d = (Response 403 (Message msg_token_invalido), d)"
  using assms by (auto simp: api_def h_api_def authenticateToken_def split: route.splits)

lemma api_salesperson:
  assumes "authenticateToken e (authorization r) = Inr u" "c_role u = ''Vendedor''"
    and "route r = Post_products b \<or> route r = Put_products i b"
  shows "api e r d = (Response 403 (Message msg_sem_permissao), d) \<and>
         run_prog e (h_api e r) d = (Response 403 (Message msg_sem_permissao), d)"
  using assms
  by (auto simp: api_def h_api_def post_products_def put_products_def h_post_products_def
      h_put_products_def)

lemma api_not_owner_users:
  assumes "authenticateToken e (authorization r) = Inr u" "c_role u \<noteq> ''Dono''"
    and "route r = Get_users \<or> route r = Post_users ub"
  shows "api e r d = (Response 403 (Message msg_acesso_negado), d) \<and>
         run_prog e (h_api e r) d = (Response 403 (Message msg_acesso_negado), d)"
  using assms
  by (auto simp: api_def h_api_def get_users_def post_users_def h_get_users_def h_post_users_def)

lemma api_not_owner_audit:
  assumes "authenticateToken e (authorization r) = Inr u" "c_role u \<noteq> ''Dono''"
    and "route r = Get_audit q"
  shows "api e r d = (Response 403 (Message msg_acesso_restrito), d) \<and>
         run_prog e (h_api e r) d = (Response 403 (Message msg_acesso_restrito), d)"
  using assms by (auto simp: api_def h_api_def get_audit_def h_get_audit_def)

text \<open>
  Claim C6, as the servers have it. With a verified token, the role \<^verbatim>\<open>Vendedor\<close> gets
  403 on creating and editing products, and any role other than \<^verbatim>\<open>Dono\<close> gets 403 on
  listing users, creating users and reading the audit log; the store is untouched. Without a
  token the answer is 401; with a token that fails verification it is 403 with a message of
  its own, which none of the role refusals uses. Parts 000 and 002 agree.
\<close>

theorem access_gate:
  "(authenticateToken e (authorization r) = Inr u \<and> c_role u = ''Vendedor'' \<and>
      (route r = Post_products b \<or> route r = Put_products i b) \<longrightarrow>
      api e r d = (Response 403 (Message msg_sem_permissao), d) \<and>
      run_prog e (h_api e r) d = (Response 403 (Message msg_sem_permissao), d)) \<and>
   (authenticateToken e (authorization r) = Inr u \<and> c_role u \<noteq> ''Dono'' \<and>
      (route r = Get_users \<or> route r = Post_users ub) \<longrightarrow>
      api e r d = (Response 403 (Message msg_acesso_negado), d) \<and>
      run_prog e (h_api e r) d = (Response 403 (Message msg_acesso_negado), d)) \<and>
   (authenticateToken e (authorization r) = Inr u \<and> c_role u \<noteq> ''Dono'' \<and> route r = Get_audit q \<longrightarrow>
      api e r d = (Response 403 (Message msg_acesso_restrito), d) \<and>
      run_prog e (h_api e r) d = (Response 403 (Message msg_acesso_restrito), d)) \<and>
   ((\<forall>un pw. route r \<noteq> Post_auth_login un pw) \<and>
      (bearer_token (authorization r) = None \<or> bearer_token (authorization r) = Some []) \<longrightarrow>
      api e r d = (Response 401 (Message msg_acesso_negado), d) \<and>
      run_prog e (h_api e r) d = (Response 401 (Message msg_acesso_negado), d)) \<and>
   ((\<forall>un pw. route r \<noteq> Post_auth_login un pw) \<and>
      bearer_token (authorization r) = Some t \<and> t \<noteq> [] \<and> jwt_verify e t = None \<longrightarrow>
      api e r d = (Response 403 (Message msg_token_invalido), d) \<and>
      run_prog e (h_api e r) d = (Response 403 (Message msg_token_invalido), d)) \<and>
   msg_token_invalido \<noteq> msg_sem_permissao \<and> msg_token_invalido \<noteq> msg_acesso_negado \<and>
   msg_token_invalido \<noteq> msg_acesso_restrito"
proof -
  have 1: "authenticateToken e (authorization r) = Inr u \<and> c_role u = ''Vendedor'' \<and>
      (route r = Post_products b \<or> route r = Put_products i b) \<longrightarrow>
      api e r d = (Response 403 (Message msg_sem_permissao), d) \<and>
      run_prog e (h_api e r) d = (Response 403 (Message msg_sem_permissao), d)"
    using api_salesperson [of e r u b i d] by simp
  have 2: "authenticateToken e (authorization r) = Inr u \<and> c_role u \<noteq> ''Dono'' \<and>
      (route r = Get_users \<or> route r = Post_users ub) \<longrightarrow>
      api e r d = (Response 403 (Message msg_acesso_negado), d) \<and>
      run_prog e (h_api e r) d = (Response 403 (Message msg_acesso_negado), d)"
    using api_not_owner_users [of e r u ub d] by simp
  have 3: "authenticateToken e (authorization r) = Inr u \<and> c_role u \<noteq> ''Dono'' \<and> route r = Get_audit q \<longrightarrow>
      api e r d = (Response 403 (Message msg_acesso_restrito), d) \<and>
      run_prog e (h_api e r) d = (Response 403 (Message msg_acesso_restrito), d)"
    using api_not_owner_audit [of e r u q d] by simp
  have 4: "(\<forall>un pw. route r \<noteq> Post_auth_login un pw) \<and>
      (bearer_token (authorization r) = None \<or> bearer_token (authorization r) = Some []) \<longrightarrow>
      api e r d = (Response 401 (Message msg_acesso_negado), d) \<and>
      run_prog e (h_api e r) d = (Response 401 (Message msg_acesso_negado), d)"
    using api_no_token [of r e d] by simp
  have 5: "(\<forall>un pw. route r \<noteq> Post_auth_login un pw) \<and>
      bearer_token (authorization r) = Some t \<and> t \<noteq> [] \<and> jwt_verify e t = None \<longrightarrow>
      api e r d = (Response 403 (Message msg_token_invalido), d) \<and>
      run_prog e (h_api e r) d = (Response 403 (Message msg_token_invalido), d)"
    using api_bad_token [of r t e d] by simp
  from 1 2 3 4 5 messages_differ show ?thesis
    by (intro conjI)
qed

text \<open>
  Claim C6 as stated fails: an invalid credential is answered with 403, the status of an
  insufficient role, not with 401.
\<close>

theorem invalid_token_is_403:
  "jwt_verify example_env ''forged'' = None \<and>
   api example_env \<lparr>authorization = Some ''Bearer forged'', route = Post_products dearer_cement\<rparr> store
     = (Response 403 (Message msg_token_invalido), store) \<and>
   api example_env \<lparr>authorization = Some ''Bearer seller'', route = Post_products dearer_cement\<rparr> store
     = (Response 403 (Message msg_sem_permissao), store)"
  by (simp add: api_def authenticateToken_def bearer_token_def example_defs post_products_def)

theorem access_gate_witness:
  "authenticateToken example_env (Some ''Bearer seller'') = Inr seller \<and>
   c_role seller = ''Vendedor'' \<and> c_role seller \<noteq> ''Dono'' \<and>
   api example_env \<lparr>authorization = Some ''Bearer seller'', route = Post_products dearer_cement\<rparr> store
     = (Response 403 (Message msg_sem_permissao), store) \<and>
   api example_env \<lparr>authorization = Some ''Bearer seller'', route = Post_users new_clerk\<rparr> store
     = (Response 403 (Message msg_acesso_negado), store) \<and>
   api example_env \<lparr>authorization = Some ''Bearer seller'', route = Get_audit no_range\<rparr> store
     = (Response 403 (Message msg_acesso_restrito), store) \<and>
   bearer_token None = None \<and>
   api example_env \<lparr>authorization = None, route = Get_products\<rparr> store
     = (Response 401 (Message msg_acesso_negado), store) \<and>
   bearer_token (Some ''Bearer forged'') = Some ''forged'' \<and>
   jwt_verify example_env ''forged'' = None \<and>
   run_prog example_env (h_api example_env \<lparr>authorization = Some ''Bearer forged'', route = Get_products\<rparr>)
     store = (Response 403 (Message msg_token_invalido), store)"
proof -
  let ?s = "Some ''Bearer seller''"
  have auth: "authenticateToken example_env ?s = Inr seller"
    by (simp add: authenticateToken_def bearer_token_def example_defs)
  have role: "c_role seller = ''Vendedor''" "c_role seller \<noteq> ''Dono''"
    by (simp_all add: example_defs)
  have none: "bearer_token None = None"
    by (simp add: bearer_token_def)
  have forged: "bearer_token (Some ''Bearer forged'') = Some ''forged''"
    by (simp add: bearer_token_def)
  have bad: "jwt_verify example_env ''forged'' = None"
    by (simp add: example_defs)
  have 1: "api example_env \<lparr>authorization = ?s, route = Post_products dearer_cement\<rparr> store
     = (Response 403 (Message msg_sem_permissao), store)"
    using access_gate [of example_env "\<lparr>authorization = ?s, route = Post_products dearer_cement\<rparr>"
        seller dearer_cement "[]" store] auth role
    by simp
  have 2: "api example_env \<lparr>authorization = ?s, route = Post_users new_clerk\<rparr> store
     = (Response 403 (Message msg_acesso_negado), store)"
    using access_gate [of example_env "\<lparr>authorization = ?s, route = Post_users new_clerk\<rparr>"
        seller dearer_cement "[]" store new_clerk] auth role
    by simp
  have 3: "api example_env \<lparr>authorization = ?s, route = Get_audit no_range\<rparr> store
     = (Response 403 (Message msg_acesso_restrito), store)"
    using access_gate [of example_env "\<lparr>authorization = ?s, route = Get_audit no_range\<rparr>"
        seller dearer_cement "[]" store new_clerk no_range] auth role
    by simp
  have 4: "api example_env \<lparr>authorization = None, route = Get_products\<rparr> store
     = (Response 401 (Message msg_acesso_negado), store)"
    using access_gate [of example_env "\<lparr>authorization = None, route = Get_products\<rparr>"
        seller dearer_cement "[]" store new_clerk no_range] none
    by simp
  have 5: "run_prog example_env
     (h_api example_env \<lparr>authorization = Some ''Bearer forged'', route = Get_products\<rparr>) store
     = (Response 403 (Message msg_token_invalido), store)"
    using access_gate [of example_env "\<lparr>authorization = Some ''Bearer forged'', route = Get_products\<rparr>"
        seller dearer_cement "[]" store new_clerk no_range "''forged''"] forged bad
    by simp
  from auth role 1 2 3 none 4 forged bad 5 show ?thesis
    by (intro conjI)
qed


subsection \<open>The ledgers only grow\<close>

lemma ledgers_refl [simp]: "ledgers_extended d d"
  by (simp add: ledgers_extended_def)

lemma ledgers_trans: "ledgers_extended a b \<Longrightarrow> ledgers_extended b c \<Longrightarrow> ledgers_extended a c"
  by (auto simp: ledgers_extended_def intro: prefix_order.trans)

lemma apply_stmt_ledgers: "ledgers_extended d (apply_stmt t s d)"
  by (cases s) (simp_all add: ledgers_extended_def)

lemma run_stmt_ledgers: "run_stmt e s d = Inr (i, d') \<Longrightarrow> ledgers_extended d d'"
  by (auto simp: run_stmt_def apply_stmt_ledgers split: if_splits)

lemma logAudit_ledgers: "logAudit e uid a en dt d = Inr d' \<Longrightarrow> ledgers_extended d d'"
  by (auto simp: logAudit_def dest: run_stmt_ledgers split: sum.splits)

lemma sale_lines_ledgers: "sale_lines e u saleId its d = Inr d' \<Longrightarrow> ledgers_extended d d'"
proof (induction its arbitrary: d)
  case Nil
  then show ?case by simp
next
  case (Cons it its)
  from Cons.prems obtain d1 d2 d3 i1 i2 i3 where
    s: "run_stmt e (Insert_sale_item saleId (i_id it) (i_quantity it) (i_price it) None) d = Inr (i1, d1)"
       "run_stmt e (Decrement_stock (i_quantity it) (i_id it)) d1 = Inr (i2, d2)"
       "run_stmt e (Insert_stock_movement (i_id it) (c_id u) ''OUT'' (i_quantity it) (sale_reason saleId)) d2 = Inr (i3, d3)"
       "sale_lines e u saleId its d3 = Inr d'"
    by (auto split: sum.splits)
  from s(1-3) have "ledgers_extended d d3"
    by (blast intro: ledgers_trans dest: run_stmt_ledgers)
  with Cons.IH [OF s(4)] show ?case by (blast intro: ledgers_trans)
qed

lemma d_sale_lines_ledgers: "d_sale_lines e u saleId its d = Inr d' \<Longrightarrow> ledgers_extended d d'"
proof (induction its arbitrary: d)
  case Nil
  then show ?case by simp
next
  case (Cons it its)
  from Cons.prems obtain cp d1 d2 d3 i1 i2 i3 where
    s: "run_stmt e (Insert_sale_item saleId (i_id it) (i_quantity it) (i_price it) cp) d = Inr (i1, d1)"
       "run_stmt e (Decrement_stock (i_quantity it) (i_id it)) d1 = Inr (i2, d2)"
       "run_stmt e (Insert_stock_movement (i_id it) (c_id u) ''OUT'' (i_quantity it) (sale_reason saleId)) d2 = Inr (i3, d3)"
       "d_sale_lines e u saleId its d3 = Inr d'"
    by (auto simp: Let_def split: sum.splits)
  from s(1-3) have "ledgers_extended d d3"
    by (blast intro: ledgers_trans dest: run_stmt_ledgers)
  with Cons.IH [OF s(4)] show ?case by (blast intro: ledgers_trans)
qed

lemma post_sales_ledgers: "ledgers_extended d (snd (post_sales e u b d))"
proof (cases "sale_transaction e u b d")
  case (Inl err)
  then show ?thesis by (simp add: post_sales_def transaction_def)
next
  case (Inr x)
  obtain saleId d' where x: "x = (saleId, d')" by (cases x)
  from Inr x obtain i1 d1 d2 where
    s: "run_stmt e (Insert_sale (c_id u) (sb_total b) (sb_payment_method b)) d = Inr (i1, d1)"
       "sale_lines e u i1 (sb_items b) d1 = Inr d2"
       "logAudit e (c_id u) ''SALE'' ''SALES'' (sale_details i1 (sb_total b)) d2 = Inr d'"
    by (auto simp: sale_transaction_def split: sum.splits)
  have "ledgers_extended d d'"
    using run_stmt_ledgers [OF s(1)] sale_lines_ledgers [OF s(2)] logAudit_ledgers [OF s(3)]
    by (blast intro: ledgers_trans)
  with Inr x show ?thesis by (simp add: post_sales_def transaction_def)
qed

lemma d_post_sales_ledgers: "ledgers_extended d (snd (d_post_sales e u b d))"
proof (cases "d_sale_transaction e u b d")
  case (Inl err)
  then show ?thesis by (simp add: d_post_sales_def transaction_def)
next
  case (Inr x)
  obtain saleId d' where x: "x = (saleId, d')" by (cases x)
  from Inr x obtain i1 d1 where
    s: "run_stmt e (Insert_sale (c_id u) (sb_total b) (sb_payment_method b)) d = Inr (i1, d1)"
       "d_sale_lines e u i1 (sb_items b) d1 = Inr d'"
    by (auto simp: d_sale_transaction_def split: sum.splits)
  have dd': "ledgers_extended d d'"
    using run_stmt_ledgers [OF s(1)] d_sale_lines_ledgers [OF s(2)]
    by (blast intro: ledgers_trans)
  show ?thesis
  proof (cases "logAudit e (c_id u) ''SALE'' ''SALES'' (sale_details saleId (sb_total b)) d'")
    case (Inl err)
    with Inr x dd' show ?thesis by (simp add: d_post_sales_def transaction_def)
  next
    case (Inr d'')
    with logAudit_ledgers [OF Inr] dd' have "ledgers_extended d d''"
      by (blast intro: ledgers_trans)
    with \<open>d_sale_transaction e u b d = Inr x\<close> x Inr show ?thesis
      by (simp add: d_post_sales_def transaction_def)
  qed
qed

lemma two_stmts_ledgers:
  assumes "run_stmt e s d = Inr (i, d1)"
  shows "ledgers_extended d d1"
    and "logAudit e uid a en dt d1 = Inr d2 \<Longrightarrow> ledgers_extended d d2"
  using assms by (blast intro: ledgers_trans dest: run_stmt_ledgers logAudit_ledgers)+

lemma post_products_ledgers: "ledgers_extended d (snd (post_products e u b d))"
  by (auto simp: post_products_def split: sum.splits dest: two_stmts_ledgers)

lemma put_products_ledgers: "ledgers_extended d (snd (put_products e u i b d))"
  by (auto simp: put_products_def split: sum.splits option.splits
      dest: two_stmts_ledgers logAudit_ledgers)

lemma post_users_ledgers: "ledgers_extended d (snd (post_users e u b d))"
  by (auto simp: post_users_def split: sum.splits dest: two_stmts_ledgers)

lemma post_auth_login_ledgers: "ledgers_extended d (snd (post_auth_login e un pw d))"
  by (auto simp: post_auth_login_def split: sum.splits option.splits dest: logAudit_ledgers)

lemma api_ledgers: "ledgers_extended d (snd (api e r d))"
  by (simp add: api_def post_products_ledgers put_products_ledgers post_users_ledgers
      post_auth_login_ledgers post_sales_ledgers split: route.splits sum.splits)

lemma step_ledgers: "ledgers_extended d (snd (step e p d))"
  by (cases p) (simp_all add: apply_stmt_ledgers)

lemma run_prog_ledgers: "ledgers_extended d (snd (run_prog e p d))"
proof (induction p arbitrary: d)
  case (Return x)
  show ?case by simp
next
  case (Await_write s k)
  show ?case
  proof (cases "rejects e d s")
    case True
    then show ?thesis using Await_write [of "k False" d] by simp
  next
    case False
    then show ?thesis
      using Await_write [of "k True" "apply_stmt (now e) s d"] apply_stmt_ledgers [of d "now e" s]
      by (auto intro: ledgers_trans)
  qed
next
  case (Await_insert_select s k)
  show ?case
  proof (cases "rejects e d s")
    case True
    then show ?thesis using Await_insert_select [of "k None" d] by simp
  next
    case False
    then show ?thesis
      using Await_insert_select [of "k (Some (new_rowid d s))" "apply_stmt (now e) s d"]
        apply_stmt_ledgers [of d "now e" s]
      by (auto intro: ledgers_trans)
  qed
next
  case (Await_read k)
  show ?case using Await_read [of "k d" d] by simp
qed

lemma interleave_ledgers: "ledgers_extended d (snd (interleave e sched ps d))"
proof (induction sched arbitrary: ps d)
  case Nil
  show ?case by simp
next
  case (Cons i sched)
  show ?case
  proof (cases "i < length ps")
    case True
    obtain p' d' where st: "step e (ps ! i) d = (p', d')" by (cases "step e (ps ! i) d")
    have "ledgers_extended d d'" using step_ledgers [of d e "ps ! i"] st by simp
    with Cons [of d' "ps[i := p']"] True st show ?thesis
      by (auto intro: ledgers_trans)
  next
    case False
    then show ?thesis using Cons [of d ps] by simp
  qed
qed

text \<open>
  Claim C8. Whatever the request, the rows of \<^verbatim>\<open>sales\<close>, \<^verbatim>\<open>sale_items\<close>,
  \<^verbatim>\<open>stock_movements\<close> and \<^verbatim>\<open>audit_logs\<close> that were there stay as they were, in
  place, and new rows only come after them: for every route of parts 000 and 002 (for 002
  also with any number of requests in flight together), and for the sale recording of part
  001 on both paths.
\<close>

theorem ledgers_append_only:
  "ledgers_extended d (snd (api e r d)) \<and>
   ledgers_extended d (snd (run_prog e (h_api e r) d)) \<and>
   ledgers_extended d (snd (interleave e sched (map (h_api e) rs) d)) \<and>
   ledgers_extended d (snd (d_post_sales e u b d)) \<and>
   ledgers_extended d (snd (run_prog e (dh_post_sales u b) d))"
  by (simp add: api_ledgers run_prog_ledgers interleave_ledgers d_post_sales_ledgers)

subsection \<open>The month figure; the top products\<close>
















text \<open>
  Claim C7, at an input where part 002 breaks it. After the sale of three bags, asked for a
  range with no sale in it, the report of part 002 lists no sale and still shows the product
  with a revenue of 98.70: the items are never filtered by the range. Part 000 shows no top
  product for that range.
\<close>

theorem hosted_top_products_ignore_range:
  "run_prog example_env (h_get_reports_sales far_range) hosted_after_three_bags =
     (Response 200 (Sales_report [] [(Some ''Cimento CP-II 50kg'', 3, 98.70)]),
      hosted_after_three_bags) \<and>
   map s_created_at (sales hosted_after_three_bags) = [''2024-05-10 12:00:00''] \<and>
   get_reports_sales example_env far_range after_three_bags = Response 200 (Sales_report [] [])"
  by (simp add: hosted_after_three_bags_def after_three_bags_def far_range_def example_defs
      handler_defs h_get_reports_sales_def get_reports_sales_def h_topProducts_def topProducts_def
      productStats_def product_name_of_def object_values_def object_entries_def array_index_def
      is_digit_def order_by_desc_def in_range_def in_report_range_def range_of_def between_def
      sqlite_between_def sqlite_value_of_def decimal_def total_revenue_def)

lemma sorted_take_desc:
  "sorted (rev (map k (take n (order_by_desc k xs))))"
proof -
  let ?s = "map k (sort_key k (rev xs))"
  have s: "sorted ?s" by simp
  have "rev (map k (take n (order_by_desc k xs))) = rev (take n (rev ?s))"
    by (simp add: order_by_desc_def take_map rev_map)
  also have "\<dots> = drop (length ?s - n) ?s"
    by (simp add: rev_take)
  finally show ?thesis using s by (simp add: sorted_wrt_drop)
qed

text \<open>
  In parts 000 and 002 alike, the top products come in descending order of
  \<^verbatim>\<open>total_revenue\<close> and are at most ten.
\<close>

theorem top_products_sorted_and_capped:
  "sorted (rev (map total_revenue (topProducts e q d))) \<and> length (topProducts e q d) \<le> 10 \<and>
   sorted (rev (map total_revenue (h_topProducts d))) \<and> length (h_topProducts d) \<le> 10"
  by (simp add: topProducts_def h_topProducts_def Let_def sorted_take_desc)

subsection \<open>The embedded paths on the same questions\<close>

text \<open>
  On the embedded paths a sale is recorded whole or not at all: the answer is the success
  answer, or it is 500 with the message of the handler and the store is as it was.
\<close>

theorem embedded_sale_all_or_nothing:
  "(post_sales e u b d = (r, d') \<longrightarrow>
      (\<exists>saleId. r = Response 200 (Id saleId)) \<or>
      (r = Response 500 (Message msg_erro_processar_venda) \<and> d' = d)) \<and>
   (d_post_sales e u b d = (r, d') \<longrightarrow>
      (\<exists>saleId. r = Response 200 (Id saleId)) \<or>
      (r = Response 500 (Message msg_erro_processar_venda) \<and> d' = d))"
  by (auto simp: post_sales_def d_post_sales_def transaction_def split: sum.splits prod.splits)

theorem embedded_sale_all_or_nothing_witness:
  "post_sales example_env admin bags_and_ghost store =
     (Response 500 (Message msg_erro_processar_venda), store) \<and>
   d_post_sales example_env admin bags_and_ghost store =
     (Response 500 (Message msg_erro_processar_venda), store)"
proof -
  have 1: "fst (post_sales example_env admin bags_and_ghost store) =
      Response 500 (Message msg_erro_processar_venda)"
    by (simp add: example_defs handler_defs)
  have 2: "fst (d_post_sales example_env admin bags_and_ghost store) =
      Response 500 (Message msg_erro_processar_venda)"
    by (simp add: example_defs handler_defs)
  have p1: "post_sales example_env admin bags_and_ghost store =
      (Response 500 (Message msg_erro_processar_venda),
       snd (post_sales example_env admin bags_and_ghost store))"
    using 1 by (simp add: prod_eq_iff)
  have p2: "d_post_sales example_env admin bags_and_ghost store =
      (Response 500 (Message msg_erro_processar_venda),
       snd (d_post_sales example_env admin bags_and_ghost store))"
    using 2 by (simp add: prod_eq_iff)
  have s1: "snd (post_sales example_env admin bags_and_ghost store) = store"
    using embedded_sale_all_or_nothing
      [of example_env admin bags_and_ghost store "Response 500 (Message msg_erro_processar_venda)"
        "snd (post_sales example_env admin bags_and_ghost store)"] p1
    by blast
  have s2: "snd (d_post_sales example_env admin bags_and_ghost store) = store"
    using embedded_sale_all_or_nothing
      [of example_env admin bags_and_ghost store "Response 500 (Message msg_erro_processar_venda)"
        "snd (d_post_sales example_env admin bags_and_ghost store)"] p2
    by blast
  from p1 p2 s1 s2 show ?thesis by simp
qed

text \<open>
  On the embedded paths the dashboard counts the products whose stock is at or under their
  own minimum, whatever the range.
\<close>

theorem embedded_critical_stock:
  "(\<exists>n t m ch. get_dashboard_stats e q d =
      Response 200 (Stats n t m
        (length (filter (\<lambda>p. p_stock_quantity p \<le> p_min_stock p) (products d))) ch)) \<and>
   (\<exists>n t m ch. d_get_dashboard_stats e q d =
      Response 200 (Stats n t m
        (length (filter (\<lambda>p. p_stock_quantity p \<le> p_min_stock p) (products d))) ch))"
  by (simp add: get_dashboard_stats_def d_get_dashboard_stats_def criticalStock_def Let_def)

end
